theory Spec2Isabelle
  imports Main "HOL-Library.Word" "HOL-Library.AList"
begin


section \<open>Shuffle block reader: the model\<close>

text \<open>
  A shuffle row block, as far as \<open>ShuffleReader::read\<close> looks at it: the two identity
  tags of \<open>DB::BlockInfo\<close> and the two sizes \<open>rows()\<close> and \<open>bytes()\<close>, both
  \<open>size_t\<close>. The column data is only ever moved as a whole, so it is not modelled.
\<close>

record BlockInfo =
  is_overflows :: bool
  bucket_num :: int

record Block =
  info :: BlockInfo
  rows :: "64 word"
  bytes :: "64 word"

text \<open>The default-constructed \<open>DB::Block\<close>: no columns, zero rows, default tags.\<close>

definition empty_Block :: Block where
  "empty_Block = \<lparr>info = \<lparr>is_overflows = False, bucket_num = -1\<rparr>, rows = 0, bytes = 0\<rparr>"

text \<open>
  The reader. \<open>input_stream\<close> is what the block decoder will still deliver;
  \<open>pending_block\<close> is the look-ahead slot: \<open>None\<close> is the empty block \<open>{}\<close>, which
  the test \<open>if (pending_block)\<close> takes for false. The two thresholds are \<open>Int64\<close>.
\<close>

record ShuffleReader =
  input_stream :: "Block list"
  pending_block :: "Block option"
  max_shuffle_read_rows :: "64 word"
  max_shuffle_read_bytes :: "64 word"
  current_block :: Block

text \<open>\<open>input_stream->read()\<close>: the next block, or an empty block at end of stream.\<close>

fun NativeReader_read :: "Block list \<Rightarrow> Block \<times> Block list" where
  "NativeReader_read [] = (empty_Block, [])"
| "NativeReader_read (b # bs) = (b, bs)"

text \<open>
  The guard of the \<open>while\<close> loop. \<open>max < 0\<close> is a signed test of the \<open>Int64\<close>
  (\<open>sint\<close> reads the word as two's complement);
  \<open>buffer_rows < max\<close> compares a \<open>size_t\<close> with an \<open>Int64\<close>, which C++ does
  unsigned.
\<close>

definition loop_continues :: "64 word \<Rightarrow> 64 word \<Rightarrow> 64 word \<Rightarrow> 64 word \<Rightarrow> bool" where
  "loop_continues max_rows max_bytes buffer_rows buffer_bytes \<longleftrightarrow>
     buffer_rows = 0
     \<or> ((sint max_rows < 0 \<or> buffer_rows < max_rows)
        \<and> (sint max_bytes < 0 \<or> buffer_bytes < max_bytes))"

text \<open>The three ways out of the loop: the guard, and the two \<open>break\<close>s.\<close>

datatype loop_exit = Threshold | EndOfStream | Mismatch

record loop_state =
  buffer_rows :: "64 word"
  buffer_bytes :: "64 word"
  blocks :: "Block list"

definition same_identity :: "Block \<Rightarrow> Block \<Rightarrow> bool" where
  "same_identity a b \<longleftrightarrow>
     is_overflows (info a) = is_overflows (info b) \<and> bucket_num (info a) = bucket_num (info b)"

text \<open>
  The loop, one recursive call per iteration. It returns the exit taken, the
  accumulated state, the block to keep as pending (if any) and the rest of the stream.
\<close>

function read_loop ::
  "64 word \<Rightarrow> 64 word \<Rightarrow> Block list \<Rightarrow> loop_state
    \<Rightarrow> loop_exit \<times> loop_state \<times> Block option \<times> Block list" where
  "read_loop max_rows max_bytes stream st =
     (if loop_continues max_rows max_bytes (buffer_rows st) (buffer_bytes st)
      then
        (case NativeReader_read stream of (block, rest) \<Rightarrow>
           if rows block = 0 then (EndOfStream, st, None, rest)
           else if blocks st \<noteq> [] \<and> \<not> same_identity (hd (blocks st)) block
             then (Mismatch, st, Some block, rest)
           else read_loop max_rows max_bytes rest
             \<lparr>buffer_rows = buffer_rows st + rows block,
              buffer_bytes = buffer_bytes st + bytes block,
              blocks = blocks st @ [block]\<rparr>)
      else (Threshold, st, None, stream))"
  by pat_completeness auto
termination
  apply (relation "measure (\<lambda>(max_rows, max_bytes, stream, st). length stream)")
   apply simp
  subgoal for max_rows max_bytes stream st block rest
    by (cases stream) (auto simp: empty_Block_def)
  done

declare read_loop.simps [simp del]

text \<open>
  \<open>DB::concatenateBlocks\<close> (ClickHouse) appends the columns of the blocks; of the
  result only the sizes are modelled. \<open>read\<close> then overwrites the tags with those of
  \<open>blocks[0]\<close>.
\<close>

definition concatenateBlocks :: "Block list \<Rightarrow> Block" where
  "concatenateBlocks bs =
     \<lparr>info = info empty_Block, rows = sum_list (map rows bs), bytes = sum_list (map bytes bs)\<rparr>"

definition seed :: "Block option \<Rightarrow> loop_state" where
  "seed p = (case p of
      None \<Rightarrow> \<lparr>buffer_rows = 0, buffer_bytes = 0, blocks = []\<rparr>
    | Some b \<Rightarrow> \<lparr>buffer_rows = rows b, buffer_bytes = bytes b, blocks = [b]\<rparr>)"

definition final_Block :: "Block list \<Rightarrow> Block" where
  "final_Block bs = (if bs \<noteq> [] then (concatenateBlocks bs)\<lparr>info := info (hd bs)\<rparr> else empty_Block)"

text \<open>
  \<open>ShuffleReader::read\<close>. Besides the new reader it returns the vector \<open>blocks\<close> that
  went into the chunk and the exit the loop took; the chunk itself is \<open>current_block\<close>
  of the new reader.
\<close>

definition read :: "ShuffleReader \<Rightarrow> loop_exit \<times> Block list \<times> ShuffleReader" where
  "read r =
     (case read_loop (max_shuffle_read_rows r) (max_shuffle_read_bytes r) (input_stream r)
             (seed (pending_block r)) of
        (ex, st, pending, rest) \<Rightarrow>
          (ex, blocks st,
           r\<lparr>input_stream := rest, pending_block := pending,
             current_block := final_Block (blocks st)\<rparr>))"

text \<open>The chunks returned by \<open>n\<close> successive calls of \<open>read\<close>.\<close>

fun reads :: "nat \<Rightarrow> ShuffleReader \<Rightarrow> Block list" where
  "reads 0 r = []"
| "reads (Suc n) r = (case read r of (ex, bs, r') \<Rightarrow> current_block r' # reads n r')"

text \<open>The look-ahead slot as a list of zero or one blocks.\<close>

definition pending_list :: "Block option \<Rightarrow> Block list" where
  "pending_list p = (case p of None \<Rightarrow> [] | Some b \<Rightarrow> [b])"

text \<open>
  Auxiliary notions for the proofs. \<open>acc_inv\<close> is what the loop keeps true of its
  accumulated state: every block carries the tags of \<open>blocks[0]\<close>, and the two running
  totals are the sums over \<open>blocks\<close>. \<open>accumulates\<close> says that an iteration reaches
  the bottom of the loop body, and \<open>push\<close> is what the body does there.
\<close>

definition acc_inv :: "loop_state \<Rightarrow> bool" where
  "acc_inv st \<longleftrightarrow>
     (\<forall>b \<in> set (blocks st). same_identity (hd (blocks st)) b)
     \<and> buffer_rows st = sum_list (map rows (blocks st))
     \<and> buffer_bytes st = sum_list (map bytes (blocks st))"

definition accumulates :: "64 word \<Rightarrow> 64 word \<Rightarrow> loop_state \<Rightarrow> Block \<Rightarrow> bool" where
  "accumulates mr mb st b \<longleftrightarrow>
     loop_continues mr mb (buffer_rows st) (buffer_bytes st) \<and> rows b \<noteq> 0
     \<and> (blocks st = [] \<or> same_identity (hd (blocks st)) b)"

definition push :: "loop_state \<Rightarrow> Block \<Rightarrow> loop_state" where
  "push st b = \<lparr>buffer_rows = buffer_rows st + rows b,
            buffer_bytes = buffer_bytes st + bytes b,
            blocks = blocks st @ [b]\<rparr>"

text \<open>Concrete blocks and readers for the examples: a block of \<open>n\<close> rows in a bucket,
  and a fresh reader on a stream.\<close>

definition blk :: "int \<Rightarrow> 64 word \<Rightarrow> Block" where
  "blk bucket n = \<lparr>info = \<lparr>is_overflows = False, bucket_num = bucket\<rparr>, rows = n, bytes = 8 * n\<rparr>"

definition reader :: "Block list \<Rightarrow> 64 word \<Rightarrow> 64 word \<Rightarrow> ShuffleReader" where
  "reader s mr mb = \<lparr>input_stream = s, pending_block = None, max_shuffle_read_rows = mr,
     max_shuffle_read_bytes = mb, current_block = empty_Block\<rparr>"

section \<open>Columnar format converter: the data model\<close>

subsection \<open>The external (Arrow) side\<close>

text \<open>
  An Arrow type, named by its type id as the \<open>switch\<close> statements of the converter
  name it. \<open>TIMESTAMP\<close> carries its time unit (the value of \<open>arrow::TimeUnit\<close>:
  0 for seconds up to 3 for nanoseconds) and its time zone, the decimals their precision
  and scale, \<open>LIST\<close> and \<open>MAP\<close> their one child field (\<open>field(0)\<close>), \<open>STRUCT\<close> its
  fields, \<open>DICTIONARY\<close> its index type and its value type. \<open>OTHER\<close> stands for every
  type id that no \<open>case\<close> label of the converter names, with the name of the type.
\<close>

datatype arrow_type =
    STRING | BINARY | BOOL | DATE32 | DATE64
  | UINT8 | INT8 | UINT16 | INT16 | UINT32 | INT32 | UINT64 | INT64
  | HALF_FLOAT | FLOAT | DOUBLE
  | TIMESTAMP nat string
  | DECIMAL128 nat nat
  | DECIMAL256 nat nat
  | MAP arrow_field
  | LIST arrow_field
  | STRUCT "arrow_field list"
  | DICTIONARY arrow_type arrow_type
  | OTHER string
and arrow_field =
    Field (field_name: string) (field_type: arrow_type) (nullable: bool)

definition WithNullable :: "arrow_field \<Rightarrow> bool \<Rightarrow> arrow_field" where
  "WithNullable f b = Field (field_name f) (field_type f) b"

subsection \<open>The internal (ClickHouse) side\<close>

datatype NumericType =
  UInt8 | Int8 | UInt16 | Int16 | UInt32 | Int32 | UInt64 | Int64 | Float32 | Float64

datatype DecimalType = Decimal32 | Decimal64 | Decimal128 | Decimal256 | DateTime64

datatype DataType =
    DataTypeNumber NumericType
  | DataTypeString
  | DataTypeDate
  | DataTypeDate32
  | DataTypeDateTime
  | DataTypeDateTime64 nat string
  | DataTypeDecimal nat nat
  | DataTypeArray DataType
  | DataTypeMap DataType DataType
  | DataTypeTuple "DataType list" "string list"
  | DataTypeNullable DataType
  | DataTypeLowCardinality DataType

text \<open>
  An internal column, as a \<open>ColumnPtr\<close> shows it. Numbers are kept by value; a
  floating-point cell is kept as its bit pattern. \<open>ColumnString\<close> is its \<open>chars\<close> and
  its \<open>offsets\<close>. The other columns are the columns they are created from:
  \<open>ColumnArray\<close> its data and its offsets, \<open>ColumnMap\<close> its keys, its values and
  its offsets, \<open>ColumnNullable\<close> the nested column and the null map.
  \<open>ColumnUnique\<close> is a materialised dictionary: columns are immutable once built, so
  the object is modelled by its address, which is its identity, together with the column
  it was filled from. \<open>ColumnLowCardinality\<close> pairs a dictionary with an index column.
\<close>

datatype IColumn =
    ColumnVector NumericType "int list"
  | ColumnString string "nat list"
  | ColumnDecimal DecimalType "int list"
  | ColumnArray IColumn IColumn
  | ColumnMap IColumn IColumn IColumn
  | ColumnTuple "IColumn list"
  | ColumnNullable IColumn IColumn
  | ColumnUnique nat IColumn
  | ColumnLowCardinality IColumn IColumn

record ColumnWithTypeAndName =
  column :: IColumn
  type :: DataType
  name :: string


subsection \<open>Arrow arrays\<close>

text \<open>
  An Arrow array, by the array class that the converter's \<open>dynamic_cast\<close>s tell apart.
  A flat array is the list of its slots, each a null flag (\<open>IsNull\<close>) and the value
  stored in the slot; a fixed-width value is the integer in the cell. A \<open>ListArray\<close>
  (a \<open>MapArray\<close> is one) has its null flags, its \<open>offsets()\<close> (32-bit) and
  its \<open>values()\<close>; a \<open>StructArray\<close> has its null flags and one child per field; a
  \<open>DictionaryArray\<close> has its \<open>indices()\<close> and its \<open>dictionary()\<close>.
  \<open>CHStringArray\<close> is this repository's \<open>ch_parquet::internal::CHStringArray\<close>, a
  binary array that also carries an already converted column.
\<close>

datatype arrow_array =
    NumericArray "(bool \<times> int) list"
  | BooleanArray "(bool \<times> bool) list"
  | BinaryArray "(bool \<times> string) list"
  | Decimal128Array "(bool \<times> int) list"
  | Decimal256Array "(bool \<times> int) list"
  | ListArray "bool list" "int list" arrow_array
  | StructArray "bool list" "arrow_array list"
  | DictionaryArray arrow_array arrow_array
  | CHStringArray "(bool \<times> string) list" ColumnWithTypeAndName

record ChunkedArray =
  chunks :: "arrow_array list"
  chunked_type :: arrow_type

text \<open>\<open>Array::length\<close> and the null flags \<open>IsNull(0), ..., IsNull(length - 1)\<close>.\<close>

fun null_flags :: "arrow_array \<Rightarrow> bool list" where
  "null_flags (NumericArray slots) = map fst slots"
| "null_flags (BooleanArray slots) = map fst slots"
| "null_flags (BinaryArray slots) = map fst slots"
| "null_flags (Decimal128Array slots) = map fst slots"
| "null_flags (Decimal256Array slots) = map fst slots"
| "null_flags (ListArray nulls offsets vals) = nulls"
| "null_flags (StructArray nulls children) = nulls"
| "null_flags (DictionaryArray indices dict) = null_flags indices"
| "null_flags (CHStringArray slots c) = map fst slots"

definition array_length :: "arrow_array \<Rightarrow> nat" where
  "array_length a = length (null_flags a)"

definition chunked_length :: "ChunkedArray \<Rightarrow> nat" where
  "chunked_length c = sum_list (map array_length (chunks c))"

subsection \<open>Errors\<close>

text \<open>
  The exceptions of the converter, by error code, each with the values its message is
  formatted from. \<open>std_bad_cast\<close> is what a failed \<open>dynamic_cast\<close> to a reference
  throws. \<open>Undefined\<close> marks the places where the C++ has no defined behaviour on the
  input at hand (\<open>chunk(0)\<close> of a column without chunks, a failed \<open>assert_cast\<close>, a
  buffer read as what it is not). \<open>AddMessage\<close> is an exception after \<open>addMessage\<close>,
  with the column name and the two types that the added message names.
\<close>

datatype Exception =
    UNKNOWN_TYPE string arrow_type string
  | VALUE_IS_OUT_OF_RANGE_OF_DATA_TYPE int string int
  | BAD_ARGUMENTS arrow_type
  | DUPLICATE_COLUMN string
  | THERE_IS_NO_COLUMN string
  | UNKNOWN_EXCEPTION string string string
  | INCORRECT_NUMBER_OF_COLUMNS
  | AddMessage Exception string DataType DataType
  | std_bad_cast
  | Undefined

subsection \<open>What the converter takes from its libraries\<close>

text \<open>
  Constants and functions of ClickHouse and Arrow that the sources use and do not
  define; the converter is modelled for any value of them. The two day numbers are
  macros of \<open>DateLUTImpl.h\<close>. \<open>castColumn\<close> either casts a column to a type or throws.
  \<open>cloneResized\<close> is \<open>IColumn::cloneResized\<close>: a column of the same kind with the
  given number of rows, cut or filled up with default values.
  \<open>extractTableName\<close> is \<open>Nested::extractTableName\<close>, and \<open>extractColumn\<close> is what
  \<open>NestedColumnExtractHelper(block, true).extractColumn\<close> answers for a block and a
  column name. \<open>MakeEmptyArray\<close> is \<open>MakeBuilder\<close> followed by \<open>Finish\<close>: an empty
  array of a type, or the text of the failed status.
\<close>

record Library =
  DATE_LUT_MAX_EXTEND_DAY_NUM :: int
  DATE_LUT_MAX_DAY_NUM :: int
  castColumn :: "ColumnWithTypeAndName \<Rightarrow> DataType \<Rightarrow> Exception + IColumn"
  cloneResized :: "IColumn \<Rightarrow> nat \<Rightarrow> IColumn"
  extractTableName :: "string \<Rightarrow> string"
  extractColumn :: "ColumnWithTypeAndName list \<Rightarrow> string \<Rightarrow> ColumnWithTypeAndName option"
  MakeEmptyArray :: "arrow_type \<Rightarrow> string + arrow_array"


section \<open>Columnar format converter: reading one column\<close>

subsection \<open>Cells\<close>

text \<open>
  What a C++ integer type of a given width sees in a cell that holds the integer \<open>v\<close>:
  the low bits, read unsigned or as two's complement. Reading an \<open>Int8\<close> cell as
  \<open>UInt8\<close> turns -1 into 255; reading a cell at its own type changes nothing.
\<close>

definition unsigned_cell :: "nat \<Rightarrow> int \<Rightarrow> int" where
  "unsigned_cell w v = v mod 2 ^ w"

definition signed_cell :: "nat \<Rightarrow> int \<Rightarrow> int" where
  "signed_cell w v = (v + 2 ^ (w - 1)) mod 2 ^ w - 2 ^ (w - 1)"

fun reinterpret :: "NumericType \<Rightarrow> int \<Rightarrow> int" where
  "reinterpret UInt8 v = unsigned_cell 8 v"
| "reinterpret Int8 v = signed_cell 8 v"
| "reinterpret UInt16 v = unsigned_cell 16 v"
| "reinterpret Int16 v = signed_cell 16 v"
| "reinterpret UInt32 v = unsigned_cell 32 v"
| "reinterpret Int32 v = signed_cell 32 v"
| "reinterpret UInt64 v = unsigned_cell 64 v"
| "reinterpret Int64 v = signed_cell 64 v"
| "reinterpret Float32 v = unsigned_cell 32 v"
| "reinterpret Float64 v = unsigned_cell 64 v"

text \<open>C++ integer division truncates towards zero.\<close>

definition truncated_div :: "int \<Rightarrow> int \<Rightarrow> int" where
  "truncated_div a b = sgn a * sgn b * (\<bar>a\<bar> div \<bar>b\<bar>)"

subsection \<open>Loops over the chunks\<close>

text \<open>
  Every reader walks the chunks in order and appends what it reads from each; an
  exception in a chunk ends the walk.
\<close>

fun collect :: "('a \<Rightarrow> Exception + 'b) \<Rightarrow> 'a list \<Rightarrow> Exception + 'b list" where
  "collect f [] = Inr []"
| "collect f (x # xs) =
     (case f x of
        Inl e \<Rightarrow> Inl e
      | Inr y \<Rightarrow> (case collect f xs of Inl e \<Rightarrow> Inl e | Inr ys \<Rightarrow> Inr (y # ys)))"

definition map_chunks :: "(arrow_array \<Rightarrow> Exception + 'a list) \<Rightarrow> arrow_array list \<Rightarrow> Exception + 'a list" where
  "map_chunks f cs = (case collect f cs of Inl e \<Rightarrow> Inl e | Inr xss \<Rightarrow> Inr (concat xss))"

subsection \<open>readColumnWithNumericData\<close>

text \<open>
  An empty chunk is skipped; of any other chunk the value buffer is read as an array of
  \<open>NumericType\<close>, which has a meaning for a numeric array only. The model reads one
  value from each cell. Where the cells of the array are narrower than \<open>NumericType\<close>,
  as for \<open>HALF_FLOAT\<close> read as \<open>Float32\<close>, the source reads several cells as one
  value and runs past the buffer: there the model has the row count of the source, not
  its values.
\<close>

fun numeric_chunk :: "NumericType \<Rightarrow> arrow_array \<Rightarrow> Exception + int list" where
  "numeric_chunk T (NumericArray slots) = Inr (map (\<lambda>slot. reinterpret T (snd slot)) slots)"
| "numeric_chunk T chunk = (if array_length chunk = 0 then Inr [] else Inl Undefined)"

definition readColumnWithNumericData ::
  "NumericType \<Rightarrow> ChunkedArray \<Rightarrow> string \<Rightarrow> Exception + ColumnWithTypeAndName" where
  "readColumnWithNumericData T arrow_column column_name =
     (case map_chunks (numeric_chunk T) (chunks arrow_column) of
        Inl e \<Rightarrow> Inl e
      | Inr column_data \<Rightarrow>
          Inr \<lparr>column = ColumnVector T column_data, type = DataTypeNumber T, name = column_name\<rparr>)"

subsection \<open>readColumnWithStringData\<close>

text \<open>
  A first pass casts every chunk to \<open>BinaryArray\<close> to add up the sizes. The second pass
  appends, slot by slot, the bytes of a value that is not null, then a zero byte, and
  records the size of \<open>chars\<close> reached as the offset of the row.
\<close>

fun binary_slots :: "arrow_array \<Rightarrow> Exception + (bool \<times> string) list" where
  "binary_slots (BinaryArray slots) = Inr slots"
| "binary_slots (CHStringArray slots c) = Inr slots"
| "binary_slots chunk = Inl std_bad_cast"

fun append_strings :: "(bool \<times> string) list \<Rightarrow> string \<times> nat list \<Rightarrow> string \<times> nat list" where
  "append_strings [] acc = acc"
| "append_strings ((is_null, v) # slots) (column_chars_t, column_offsets) =
     (let chars = (if \<not> is_null then column_chars_t @ v else column_chars_t) @ [CHR 0x00]
      in append_strings slots (chars, column_offsets @ [length chars]))"

definition readColumnWithStringData :: "ChunkedArray \<Rightarrow> string \<Rightarrow> Exception + ColumnWithTypeAndName" where
  "readColumnWithStringData arrow_column column_name =
     (case map_chunks binary_slots (chunks arrow_column) of
        Inl e \<Rightarrow> Inl e
      | Inr slots \<Rightarrow>
          (case append_strings slots ([], []) of (column_chars_t, column_offsets) \<Rightarrow>
             Inr \<lparr>column = ColumnString column_chars_t column_offsets, type = DataTypeString,
                  name = column_name\<rparr>))"

subsection \<open>readColumnWithBooleanData\<close>

fun boolean_chunk :: "arrow_array \<Rightarrow> Exception + int list" where
  "boolean_chunk (BooleanArray slots) = Inr (map (\<lambda>slot. if snd slot then 1 else 0) slots)"
| "boolean_chunk chunk = Inl std_bad_cast"

definition readColumnWithBooleanData :: "ChunkedArray \<Rightarrow> string \<Rightarrow> Exception + ColumnWithTypeAndName" where
  "readColumnWithBooleanData arrow_column column_name =
     (case map_chunks boolean_chunk (chunks arrow_column) of
        Inl e \<Rightarrow> Inl e
      | Inr column_data \<Rightarrow>
          Inr \<lparr>column = ColumnVector UInt8 column_data, type = DataTypeNumber UInt8,
               name = column_name\<rparr>)"

subsection \<open>readColumnWithDate32Data\<close>

text \<open>
  Each chunk is copied whole and then scanned from its first value on; the first value
  above \<open>DATE_LUT_MAX_EXTEND_DAY_NUM\<close> is thrown, with the column name and
  \<open>DATE_LUT_MAX_DAY_NUM\<close>, the number the message prints as the maximum.
\<close>

fun date32_chunk :: "Library \<Rightarrow> string \<Rightarrow> arrow_array \<Rightarrow> Exception + int list" where
  "date32_chunk lib column_name (NumericArray slots) =
     (let raw_data = map (\<lambda>slot. reinterpret Int32 (snd slot)) slots
      in case find (\<lambda>p. p > DATE_LUT_MAX_EXTEND_DAY_NUM lib) raw_data of
           Some p \<Rightarrow>
             Inl (VALUE_IS_OUT_OF_RANGE_OF_DATA_TYPE p column_name (DATE_LUT_MAX_DAY_NUM lib))
         | None \<Rightarrow> Inr raw_data)"
| "date32_chunk lib column_name chunk = Inl std_bad_cast"

definition readColumnWithDate32Data ::
  "Library \<Rightarrow> ChunkedArray \<Rightarrow> string \<Rightarrow> Exception + ColumnWithTypeAndName" where
  "readColumnWithDate32Data lib arrow_column column_name =
     (case map_chunks (date32_chunk lib column_name) (chunks arrow_column) of
        Inl e \<Rightarrow> Inl e
      | Inr column_data \<Rightarrow>
          Inr \<lparr>column = ColumnVector Int32 column_data, type = DataTypeDate32, name = column_name\<rparr>)"

subsection \<open>readColumnWithDate64Data and readColumnWithTimestampData\<close>

fun date64_chunk :: "arrow_array \<Rightarrow> Exception + int list" where
  "date64_chunk (NumericArray slots) =
     Inr (map (\<lambda>slot. unsigned_cell 32 (truncated_div (reinterpret Int64 (snd slot)) 1000)) slots)"
| "date64_chunk chunk = Inl std_bad_cast"

definition readColumnWithDate64Data :: "ChunkedArray \<Rightarrow> string \<Rightarrow> Exception + ColumnWithTypeAndName" where
  "readColumnWithDate64Data arrow_column column_name =
     (case map_chunks date64_chunk (chunks arrow_column) of
        Inl e \<Rightarrow> Inl e
      | Inr column_data \<Rightarrow>
          Inr \<lparr>column = ColumnVector UInt32 column_data, type = DataTypeDateTime,
               name = column_name\<rparr>)"

fun timestamp_chunk :: "arrow_array \<Rightarrow> Exception + int list" where
  "timestamp_chunk (NumericArray slots) = Inr (map (\<lambda>slot. reinterpret Int64 (snd slot)) slots)"
| "timestamp_chunk chunk = Inl std_bad_cast"

definition readColumnWithTimestampData :: "ChunkedArray \<Rightarrow> string \<Rightarrow> Exception + ColumnWithTypeAndName" where
  "readColumnWithTimestampData arrow_column column_name =
     (case chunked_type arrow_column of
        TIMESTAMP unit timezone \<Rightarrow>
          (let scale = (unit * 3) mod 256
           in case map_chunks timestamp_chunk (chunks arrow_column) of
                Inl e \<Rightarrow> Inl e
              | Inr column_data \<Rightarrow>
                  Inr \<lparr>column = ColumnDecimal DateTime64 column_data,
                       type = DataTypeDateTime64 scale timezone, name = column_name\<rparr>)
      | _ \<Rightarrow> Inl Undefined)"

subsection \<open>readColumnWithDecimalData\<close>

text \<open>
  Modelled from the spec: \<open>DecimalUtils::max_precision\<close> is declared in ClickHouse,
  outside the sources at hand. The spec calls it the maximum representable precision of
  a backing width: the number of decimal digits that always fit the signed integer of
  32, 64, 128 or 256 bits (lemma \<open>max_precision_fits\<close> below).
\<close>

fun max_precision :: "DecimalType \<Rightarrow> nat" where
  "max_precision Decimal32 = 9"
| "max_precision Decimal64 = 18"
| "max_precision Decimal128 = 38"
| "max_precision Decimal256 = 76"
| "max_precision DateTime64 = 18"

fun decimal_bits :: "DecimalType \<Rightarrow> nat" where
  "decimal_bits Decimal32 = 32"
| "decimal_bits Decimal64 = 64"
| "decimal_bits Decimal128 = 128"
| "decimal_bits Decimal256 = 256"
| "decimal_bits DateTime64 = 64"

text \<open>The template argument \<open>DecimalArray\<close> of the reader, and its \<open>dynamic_cast\<close>.\<close>

datatype DecimalArray = Decimal128Array_class | Decimal256Array_class

fun decimal_slots :: "DecimalArray \<Rightarrow> arrow_array \<Rightarrow> Exception + (bool \<times> int) list" where
  "decimal_slots Decimal128Array_class (Decimal128Array slots) = Inr slots"
| "decimal_slots Decimal256Array_class (Decimal256Array slots) = Inr slots"
| "decimal_slots cls chunk = Inl std_bad_cast"

text \<open>
  \<open>readColumnWithDecimalDataImpl\<close>: a null slot gives 0, any other slot the low bytes of
  its value read as a \<open>DecimalType\<close>.
\<close>

definition decimal_chunk :: "DecimalType \<Rightarrow> DecimalArray \<Rightarrow> arrow_array \<Rightarrow> Exception + int list" where
  "decimal_chunk T cls chunk =
     (case decimal_slots cls chunk of
        Inl e \<Rightarrow> Inl e
      | Inr slots \<Rightarrow>
          Inr (map (\<lambda>slot. if fst slot then 0 else signed_cell (decimal_bits T) (snd slot)) slots))"

definition readColumnWithDecimalDataImpl ::
  "DecimalType \<Rightarrow> DecimalArray \<Rightarrow> ChunkedArray \<Rightarrow> string \<Rightarrow> DataType
    \<Rightarrow> Exception + ColumnWithTypeAndName" where
  "readColumnWithDecimalDataImpl T cls arrow_column column_name internal_type =
     (case map_chunks (decimal_chunk T cls) (chunks arrow_column) of
        Inl e \<Rightarrow> Inl e
      | Inr column_data \<Rightarrow>
          Inr \<lparr>column = ColumnDecimal T column_data, type = internal_type, name = column_name\<rparr>)"

text \<open>The chain of comparisons that picks the backing type for a precision.\<close>

definition decimal_backing :: "nat \<Rightarrow> DecimalType" where
  "decimal_backing precision =
     (if precision \<le> max_precision Decimal32 then Decimal32
      else if precision \<le> max_precision Decimal64 then Decimal64
      else if precision \<le> max_precision Decimal128 then Decimal128
      else Decimal256)"

text \<open>
  \<open>readColumnWithDecimalData\<close>. \<open>createDecimal\<close> (ClickHouse) builds the internal type
  from the precision and the scale; what it does with a precision that no decimal type
  has is not in the sources and is not modelled.
\<close>

definition readColumnWithDecimalData ::
  "DecimalArray \<Rightarrow> ChunkedArray \<Rightarrow> string \<Rightarrow> Exception + ColumnWithTypeAndName" where
  "readColumnWithDecimalData cls arrow_column column_name =
     (let read = (\<lambda>precision scale.
            readColumnWithDecimalDataImpl (decimal_backing precision) cls arrow_column column_name
              (DataTypeDecimal precision scale))
      in case chunked_type arrow_column of
           DECIMAL128 precision scale \<Rightarrow> read precision scale
         | DECIMAL256 precision scale \<Rightarrow> read precision scale
         | _ \<Rightarrow> Inl Undefined)"

subsection \<open>readByteMapFromArrowColumn\<close>

definition readByteMapFromArrowColumn :: "ChunkedArray \<Rightarrow> IColumn" where
  "readByteMapFromArrowColumn arrow_column =
     ColumnVector UInt8
       (concat (map (\<lambda>chunk. map (\<lambda>is_null. if is_null then 1 else 0) (null_flags chunk))
          (chunks arrow_column)))"

subsection \<open>readOffsetsFromArrowListColumn and getNestedArrowColumn\<close>

text \<open>
  The offsets column starts empty. For each chunk, \<open>start\<close> is \<open>offsets_data.back()\<close>,
  which on the empty array reads the zero that a \<open>PaddedPODArray\<close> keeps before its
  first element; then every native offset but the first is added to \<open>start\<close>, in
  \<open>UInt64\<close> arithmetic, and appended.
\<close>

fun list_offsets :: "arrow_array list \<Rightarrow> nat list \<Rightarrow> Exception + nat list" where
  "list_offsets [] offsets_data = Inr offsets_data"
| "list_offsets (ListArray nulls arrow_offsets vals # rest) offsets_data =
     (let start = last (0 # offsets_data)
      in list_offsets rest
           (offsets_data @ map (\<lambda>v. nat ((int start + v) mod 2 ^ 64)) (tl arrow_offsets)))"
| "list_offsets (chunk # rest) offsets_data = Inl std_bad_cast"

definition readOffsetsFromArrowListColumn :: "ChunkedArray \<Rightarrow> Exception + IColumn" where
  "readOffsetsFromArrowListColumn arrow_column =
     (case list_offsets (chunks arrow_column) [] of
        Inl e \<Rightarrow> Inl e
      | Inr offsets_data \<Rightarrow> Inr (ColumnVector UInt64 (map int offsets_data)))"

text \<open>
  Arrays do not carry their type in this model: a column built from the children of the
  chunks is given the type that the type of the parent column declares for the child.
  \<open>ChunkedArray\<close> cannot be built from an empty vector of arrays.
\<close>

fun list_values :: "arrow_array \<Rightarrow> Exception + arrow_array" where
  "list_values (ListArray nulls arrow_offsets vals) = Inr vals"
| "list_values chunk = Inl std_bad_cast"

fun field0 :: "arrow_type \<Rightarrow> arrow_field option" where
  "field0 (LIST f) = Some f"
| "field0 (MAP f) = Some f"
| "field0 (STRUCT (f # fs)) = Some f"
| "field0 t = None"

definition make_ChunkedArray :: "arrow_array list \<Rightarrow> arrow_type \<Rightarrow> Exception + ChunkedArray" where
  "make_ChunkedArray array_vector t =
     (if array_vector = [] then Inl Undefined
      else Inr \<lparr>chunks = array_vector, chunked_type = t\<rparr>)"

definition getNestedArrowColumn :: "ChunkedArray \<Rightarrow> Exception + ChunkedArray" where
  "getNestedArrowColumn arrow_column =
     (case collect list_values (chunks arrow_column) of
        Inl e \<Rightarrow> Inl e
      | Inr array_vector \<Rightarrow>
          (case field0 (chunked_type arrow_column) of
             None \<Rightarrow> Inl Undefined
           | Some f \<Rightarrow> make_ChunkedArray array_vector (field_type f)))"

subsection \<open>readColumnWithIndexesData\<close>

text \<open>The two dispatch tables, \<open>FOR_ARROW_NUMERIC_TYPES\<close> and \<open>FOR_ARROW_INDEXES_TYPES\<close>.\<close>

fun FOR_ARROW_NUMERIC_TYPES :: "arrow_type \<Rightarrow> NumericType option" where
  "FOR_ARROW_NUMERIC_TYPES UINT8 = Some UInt8"
| "FOR_ARROW_NUMERIC_TYPES INT8 = Some Int8"
| "FOR_ARROW_NUMERIC_TYPES INT16 = Some Int16"
| "FOR_ARROW_NUMERIC_TYPES INT32 = Some Int32"
| "FOR_ARROW_NUMERIC_TYPES UINT64 = Some UInt64"
| "FOR_ARROW_NUMERIC_TYPES INT64 = Some Int64"
| "FOR_ARROW_NUMERIC_TYPES HALF_FLOAT = Some Float32"
| "FOR_ARROW_NUMERIC_TYPES FLOAT = Some Float32"
| "FOR_ARROW_NUMERIC_TYPES DOUBLE = Some Float64"
| "FOR_ARROW_NUMERIC_TYPES t = None"

fun FOR_ARROW_INDEXES_TYPES :: "arrow_type \<Rightarrow> NumericType option" where
  "FOR_ARROW_INDEXES_TYPES UINT8 = Some UInt8"
| "FOR_ARROW_INDEXES_TYPES INT8 = Some UInt8"
| "FOR_ARROW_INDEXES_TYPES UINT16 = Some UInt16"
| "FOR_ARROW_INDEXES_TYPES INT16 = Some UInt16"
| "FOR_ARROW_INDEXES_TYPES UINT32 = Some UInt32"
| "FOR_ARROW_INDEXES_TYPES INT32 = Some UInt32"
| "FOR_ARROW_INDEXES_TYPES UINT64 = Some UInt64"
| "FOR_ARROW_INDEXES_TYPES INT64 = Some UInt64"
| "FOR_ARROW_INDEXES_TYPES t = None"

definition readColumnWithIndexesData :: "ChunkedArray \<Rightarrow> Exception + IColumn" where
  "readColumnWithIndexesData arrow_column =
     (case FOR_ARROW_INDEXES_TYPES (chunked_type arrow_column) of
        Some T \<Rightarrow>
          (case readColumnWithNumericData T arrow_column [] of
             Inl e \<Rightarrow> Inl e
           | Inr c \<Rightarrow> Inr (column c))
      | None \<Rightarrow> Inl (BAD_ARGUMENTS (chunked_type arrow_column)))"

subsection \<open>Children of struct and dictionary chunks\<close>

fun struct_fields :: "nat \<Rightarrow> arrow_array \<Rightarrow> Exception + arrow_array list" where
  "struct_fields n (StructArray nulls children) =
     (if n \<le> length children then Inr (take n children) else Inl Undefined)"
| "struct_fields n chunk = Inl std_bad_cast"

text \<open>\<open>nested_arrow_columns[i]\<close> holds child \<open>i\<close> of every chunk.\<close>

definition nested_arrow_columns :: "nat \<Rightarrow> arrow_array list \<Rightarrow> Exception + arrow_array list list" where
  "nested_arrow_columns n cs =
     (case collect (struct_fields n) cs of
        Inl e \<Rightarrow> Inl e
      | Inr per_chunk \<Rightarrow> Inr (map (\<lambda>i. map (\<lambda>children. children ! i) per_chunk) [0..<n]))"

fun dictionary_of :: "arrow_array \<Rightarrow> Exception + arrow_array" where
  "dictionary_of (DictionaryArray indices dict) = Inr dict"
| "dictionary_of chunk = Inl std_bad_cast"

fun indices_of :: "arrow_array \<Rightarrow> Exception + arrow_array" where
  "indices_of (DictionaryArray indices dict) = Inr indices"
| "indices_of chunk = Inl std_bad_cast"


section \<open>Columnar format converter: readColumnFromArrowColumn\<close>

text \<open>
  The dictionary cache, \<open>dictionary_values\<close> in the sources: a map from column names
  to shared \<open>ColumnWithTypeAndName\<close> objects, an absent name and a null pointer being
  the same to the code. \<open>materialised\<close> counts the \<open>ColumnUnique\<close> objects built so
  far; the next one gets this number as its address.
\<close>

record dictionary_cache =
  entries :: "string \<Rightarrow> ColumnWithTypeAndName option"
  materialised :: nat

text \<open>\<open>dynamic_cast<CHStringArray *>\<close>: the column of the array, or a null pointer.\<close>

fun as_CHStringArray :: "arrow_array \<Rightarrow> ColumnWithTypeAndName option" where
  "as_CHStringArray (CHStringArray slots ch_column) = Some ch_column"
| "as_CHStringArray chunk = None"

subsection \<open>The cases of the switch that do not recurse\<close>

text \<open>
  The \<open>switch\<close> on the type id of the column, for every label but \<open>MAP\<close>, \<open>LIST\<close>,
  \<open>STRUCT\<close> and \<open>DICTIONARY\<close>: the readers of the flat columns, the numeric dispatch
  \<open>FOR_ARROW_NUMERIC_TYPES\<close>, and the \<open>default\<close> label, which throws.
\<close>

definition readFlatColumn ::
  "Library \<Rightarrow> ChunkedArray \<Rightarrow> string \<Rightarrow> string \<Rightarrow> bool \<Rightarrow> Exception + ColumnWithTypeAndName" where
  "readFlatColumn lib arrow_column column_name format_name read_ints_as_dates =
     (case chunked_type arrow_column of
        STRING \<Rightarrow> readColumnWithStringData arrow_column column_name
      | BINARY \<Rightarrow> readColumnWithStringData arrow_column column_name
      | BOOL \<Rightarrow> readColumnWithBooleanData arrow_column column_name
      | DATE32 \<Rightarrow> readColumnWithDate32Data lib arrow_column column_name
      | DATE64 \<Rightarrow> readColumnWithDate64Data arrow_column column_name
      | UINT16 \<Rightarrow>
          (case readColumnWithNumericData UInt16 arrow_column column_name of
             Inl e \<Rightarrow> Inl e
           | Inr c \<Rightarrow> Inr (if read_ints_as_dates then c\<lparr>type := DataTypeDate\<rparr> else c))
      | UINT32 \<Rightarrow>
          (case readColumnWithNumericData UInt32 arrow_column column_name of
             Inl e \<Rightarrow> Inl e
           | Inr c \<Rightarrow> Inr (if read_ints_as_dates then c\<lparr>type := DataTypeDateTime\<rparr> else c))
      | TIMESTAMP unit timezone \<Rightarrow> readColumnWithTimestampData arrow_column column_name
      | DECIMAL128 precision scale \<Rightarrow>
          readColumnWithDecimalData Decimal128Array_class arrow_column column_name
      | DECIMAL256 precision scale \<Rightarrow>
          readColumnWithDecimalData Decimal256Array_class arrow_column column_name
      | t \<Rightarrow>
          (case FOR_ARROW_NUMERIC_TYPES t of
             Some T \<Rightarrow> readColumnWithNumericData T arrow_column column_name
           | None \<Rightarrow> Inl (UNKNOWN_TYPE format_name t column_name)))"

subsection \<open>What the recursive cases do around the recursive call\<close>

text \<open>The nullable wrapper around the column read as if not nullable.\<close>

definition make_nullable ::
  "ColumnWithTypeAndName \<Rightarrow> ChunkedArray \<Rightarrow> string \<Rightarrow> ColumnWithTypeAndName" where
  "make_nullable nested_column arrow_column column_name =
     \<lparr>column = ColumnNullable (column nested_column) (readByteMapFromArrowColumn arrow_column),
      type = DataTypeNullable (type nested_column),
      name = column_name\<rparr>"

text \<open>
  \<open>MAP\<close> and \<open>LIST\<close> before the call: \<open>arrow_field->type()->field(0)\<close>, which has no
  defined behaviour for a type without children, and \<open>getNestedArrowColumn\<close>.
\<close>

definition nested_field_and_column ::
  "arrow_field \<Rightarrow> ChunkedArray \<Rightarrow> Exception + arrow_field \<times> ChunkedArray" where
  "nested_field_and_column arrow_field arrow_column =
     (case field0 (field_type arrow_field) of
        None \<Rightarrow> Inl Undefined
      | Some arrow_nested_field \<Rightarrow>
          (case getNestedArrowColumn arrow_column of
             Inl e \<Rightarrow> Inl e
           | Inr arrow_nested_column \<Rightarrow> Inr (arrow_nested_field, arrow_nested_column)))"

text \<open>
  \<open>LIST\<close> after the call: the offsets are read and paired with the nested column.
  \<open>ColumnArray::create\<close> is library code: the model takes it for the constructor, and
  leaves out whatever it checks of the two columns it is given.
\<close>

definition make_array ::
  "ColumnWithTypeAndName \<Rightarrow> ChunkedArray \<Rightarrow> string \<Rightarrow> Exception + ColumnWithTypeAndName" where
  "make_array nested_column arrow_column column_name =
     (case readOffsetsFromArrowListColumn arrow_column of
        Inl e \<Rightarrow> Inl e
      | Inr offsets_column \<Rightarrow>
          Inr \<lparr>column = ColumnArray (column nested_column) offsets_column,
               type = DataTypeArray (type nested_column),
               name = column_name\<rparr>)"

text \<open>
  \<open>MAP\<close> after the call: the offsets are read, and the nested column, which is taken
  for a tuple of at least two columns with a tuple type (\<open>assert_cast\<close>), gives the keys
  and the values.
\<close>

definition make_map ::
  "ColumnWithTypeAndName \<Rightarrow> ChunkedArray \<Rightarrow> string \<Rightarrow> Exception + ColumnWithTypeAndName" where
  "make_map nested_column arrow_column column_name =
     (case readOffsetsFromArrowListColumn arrow_column of
        Inl e \<Rightarrow> Inl e
      | Inr offsets_column \<Rightarrow>
          (case (column nested_column, type nested_column) of
             (ColumnTuple (keys # vals # cs), DataTypeTuple (key_type # val_type # ts) names) \<Rightarrow>
               Inr \<lparr>column = ColumnMap keys vals offsets_column,
                    type = DataTypeMap key_type val_type,
                    name = column_name\<rparr>
           | other \<Rightarrow> Inl Undefined))"

text \<open>
  \<open>STRUCT\<close> before the loop over the fields: the type of the field is taken for a
  struct type (\<open>assert_cast\<close>), and \<open>nested_arrow_columns\<close> is filled from the chunks.
  Arrays do not carry their type in this model, so the column of child \<open>i\<close> is given the
  type that the type of the struct column declares for it.
\<close>

definition typed_columns :: "arrow_field list \<Rightarrow> arrow_array list list \<Rightarrow> ChunkedArray list" where
  "typed_columns fs css = map (\<lambda>(f, cs). \<lparr>chunks = cs, chunked_type = field_type f\<rparr>) (zip fs css)"

definition struct_fields_and_columns ::
  "arrow_field \<Rightarrow> arrow_field list \<Rightarrow> ChunkedArray
    \<Rightarrow> Exception + arrow_field list \<times> ChunkedArray list" where
  "struct_fields_and_columns arrow_field children arrow_column =
     (case field_type arrow_field of
        STRUCT arrow_fields \<Rightarrow>
          (case nested_arrow_columns (length arrow_fields) (chunks arrow_column) of
             Inl e \<Rightarrow> Inl e
           | Inr cols \<Rightarrow> Inr (arrow_fields, typed_columns children cols))
      | other \<Rightarrow> Inl Undefined)"

definition make_tuple :: "ColumnWithTypeAndName list \<Rightarrow> string \<Rightarrow> ColumnWithTypeAndName" where
  "make_tuple elements column_name =
     \<lparr>column = ColumnTuple (map column elements),
      type = DataTypeTuple (map type elements) (map name elements),
      name = column_name\<rparr>"

text \<open>
  \<open>DICTIONARY\<close>, inside \<open>if (!dict_values)\<close>, before the call: the dictionaries of the
  chunks, the field \<open>"dict"\<close> of the value type (a field made by \<open>arrow::field\<close> is
  nullable), and the column of the dictionaries.
\<close>

definition dictionary_field_and_column ::
  "arrow_field \<Rightarrow> ChunkedArray \<Rightarrow> arrow_type \<Rightarrow> Exception + arrow_field \<times> ChunkedArray" where
  "dictionary_field_and_column arrow_field arrow_column value_type =
     (case collect dictionary_of (chunks arrow_column) of
        Inl e \<Rightarrow> Inl e
      | Inr dict_array \<Rightarrow>
          (case field_type arrow_field of
             DICTIONARY field_index_type field_value_type \<Rightarrow>
               (case make_ChunkedArray dict_array value_type of
                  Inl e \<Rightarrow> Inl e
                | Inr arrow_dict_column \<Rightarrow>
                    Inr (Field ''dict'' field_value_type True, arrow_dict_column))
           | other \<Rightarrow> Inl Undefined))"

text \<open>
  After the call: the column read is turned into a new \<open>ColumnUnique\<close>
  (\<open>uniqueInsertRangeFrom\<close> over all its rows), and the result is stored in the cache
  under the column name.
\<close>

definition materialise ::
  "string \<Rightarrow> ColumnWithTypeAndName \<Rightarrow> dictionary_cache \<Rightarrow> dictionary_cache" where
  "materialise column_name dict_column cache =
     cache\<lparr>entries := (entries cache)(column_name \<mapsto>
               dict_column\<lparr>column := ColumnUnique (materialised cache) (column dict_column)\<rparr>),
           materialised := Suc (materialised cache)\<rparr>"

text \<open>
  \<open>DICTIONARY\<close>, after the \<open>if\<close>, on every encounter: the indices of the chunks are
  converted by \<open>readColumnWithIndexesData\<close> and paired with the cached dictionary.
  \<open>dict_values\<close> is not null here in the sources; the model answers \<open>Undefined\<close> for
  a null one.
\<close>

definition pair_with_indexes ::
  "ColumnWithTypeAndName option \<Rightarrow> ChunkedArray \<Rightarrow> arrow_type \<Rightarrow> string
    \<Rightarrow> Exception + ColumnWithTypeAndName" where
  "pair_with_indexes cached arrow_column index_type column_name =
     (case cached of
        None \<Rightarrow> Inl Undefined
      | Some dict_values \<Rightarrow>
          (case collect indices_of (chunks arrow_column) of
             Inl e \<Rightarrow> Inl e
           | Inr indexes_array \<Rightarrow>
               (case make_ChunkedArray indexes_array index_type of
                  Inl e \<Rightarrow> Inl e
                | Inr arrow_indexes_column \<Rightarrow>
                    (case readColumnWithIndexesData arrow_indexes_column of
                       Inl e \<Rightarrow> Inl e
                     | Inr indexes_column \<Rightarrow>
                         Inr \<lparr>column = ColumnLowCardinality (column dict_values) indexes_column,
                              type = DataTypeLowCardinality (type dict_values),
                              name = column_name\<rparr>))))"

subsection \<open>The converter\<close>

lemma size_field0: "field0 t = Some f \<Longrightarrow> size f < size t"
  by (induction t rule: field0.induct) auto

lemma size_field_type: "size f = Suc (size (field_type f))"
  by (cases f) simp

lemma field_type_WithNullable: "field_type (WithNullable f b) = field_type f"
  by (simp add: WithNullable_def)

lemma nullable_WithNullable: "nullable (WithNullable f b) = b"
  by (simp add: WithNullable_def)

lemma nested_field_smaller:
  "nested_field_and_column f c = Inr (nf, nc) \<Longrightarrow> Suc (size (field_type nf)) < size (field_type f)"
  by (auto simp: nested_field_and_column_def size_field_type
      split: option.splits sum.splits dest!: size_field0)

lemma struct_fields_smaller:
  "struct_fields_and_columns f children c = Inr (fs, cols) \<Longrightarrow>
     size_list (\<lambda>f. Suc (size (field_type f))) fs < size (field_type f)"
proof -
  have eq: "size_list (\<lambda>f. Suc (size (field_type f))) fs = size_list size fs" for fs
    by (induction fs) (simp_all add: size_field_type)
  assume "struct_fields_and_columns f children c = Inr (fs, cols)"
  then show ?thesis
    by (auto simp: struct_fields_and_columns_def eq split: arrow_type.splits sum.splits)
qed

lemma dictionary_field_smaller:
  "dictionary_field_and_column f c vt = Inr (df, dc) \<Longrightarrow>
     nullable df \<and> Suc (size (field_type df)) \<le> size (field_type f)"
  by (auto simp: dictionary_field_and_column_def split: arrow_type.splits sum.splits)

text \<open>
  The converter itself, with \<open>readStructElements\<close> for the loop over the fields of a
  struct. Both return the dictionary cache as they leave it, also when they throw: the
  cache is a member of the session and outlives the exception.
\<close>

function readColumnFromArrowColumn ::
  "Library \<Rightarrow> arrow_field \<Rightarrow> ChunkedArray \<Rightarrow> string \<Rightarrow> dictionary_cache \<Rightarrow> bool
    \<Rightarrow> (Exception + ColumnWithTypeAndName) \<times> dictionary_cache"
and readStructElements ::
  "Library \<Rightarrow> arrow_field list \<Rightarrow> ChunkedArray list \<Rightarrow> string \<Rightarrow> dictionary_cache \<Rightarrow> bool
    \<Rightarrow> (Exception + ColumnWithTypeAndName list) \<times> dictionary_cache"
where
  "readColumnFromArrowColumn lib arrow_field arrow_column format_name dictionary_values read_ints_as_dates =
     (if nullable arrow_field then
        (case readColumnFromArrowColumn lib (WithNullable arrow_field False) arrow_column
                format_name dictionary_values read_ints_as_dates of
           (Inl e, dictionary_values1) \<Rightarrow> (Inl e, dictionary_values1)
         | (Inr nested_column, dictionary_values1) \<Rightarrow>
             (Inr (make_nullable nested_column arrow_column (field_name arrow_field)),
              dictionary_values1))
      else
        (case chunks arrow_column of
           [] \<Rightarrow> (Inl Undefined, dictionary_values)
         | chunk0 # other_chunks \<Rightarrow>
           (case as_CHStringArray chunk0 of
              Some ch_column \<Rightarrow>
                (Inr (ch_column\<lparr>name := field_name arrow_field\<rparr>), dictionary_values)
            | None \<Rightarrow>
             (case chunked_type arrow_column of
                MAP child \<Rightarrow>
                  (case nested_field_and_column arrow_field arrow_column of
                     Inl e \<Rightarrow> (Inl e, dictionary_values)
                   | Inr (arrow_nested_field, arrow_nested_column) \<Rightarrow>
                       (case readColumnFromArrowColumn lib arrow_nested_field arrow_nested_column
                               format_name dictionary_values read_ints_as_dates of
                          (Inl e, dictionary_values1) \<Rightarrow> (Inl e, dictionary_values1)
                        | (Inr nested_column, dictionary_values1) \<Rightarrow>
                            (make_map nested_column arrow_column (field_name arrow_field),
                             dictionary_values1)))
              | LIST child \<Rightarrow>
                  (case nested_field_and_column arrow_field arrow_column of
                     Inl e \<Rightarrow> (Inl e, dictionary_values)
                   | Inr (arrow_nested_field, arrow_nested_column) \<Rightarrow>
                       (case readColumnFromArrowColumn lib arrow_nested_field arrow_nested_column
                               format_name dictionary_values read_ints_as_dates of
                          (Inl e, dictionary_values1) \<Rightarrow> (Inl e, dictionary_values1)
                        | (Inr nested_column, dictionary_values1) \<Rightarrow>
                            (make_array nested_column arrow_column (field_name arrow_field),
                             dictionary_values1)))
              | STRUCT children \<Rightarrow>
                  (case struct_fields_and_columns arrow_field children arrow_column of
                     Inl e \<Rightarrow> (Inl e, dictionary_values)
                   | Inr (arrow_fields, cols) \<Rightarrow>
                       (case readStructElements lib arrow_fields cols format_name
                               dictionary_values read_ints_as_dates of
                          (Inl e, dictionary_values1) \<Rightarrow> (Inl e, dictionary_values1)
                        | (Inr elements, dictionary_values1) \<Rightarrow>
                            (Inr (make_tuple elements (field_name arrow_field)),
                             dictionary_values1)))
              | DICTIONARY index_type value_type \<Rightarrow>
                  (case
                     (if entries dictionary_values (field_name arrow_field) = None then
                        (case dictionary_field_and_column arrow_field arrow_column value_type of
                           Inl e \<Rightarrow> (Some e, dictionary_values)
                         | Inr (arrow_dict_field, arrow_dict_column) \<Rightarrow>
                             (case readColumnFromArrowColumn lib arrow_dict_field
                                     arrow_dict_column format_name dictionary_values
                                     read_ints_as_dates of
                                (Inl e, dictionary_values1) \<Rightarrow> (Some e, dictionary_values1)
                              | (Inr dict_column, dictionary_values1) \<Rightarrow>
                                  (None,
                                   materialise (field_name arrow_field) dict_column
                                     dictionary_values1)))
                      else (None, dictionary_values)) of
                     (Some e, dictionary_values1) \<Rightarrow> (Inl e, dictionary_values1)
                   | (None, dictionary_values1) \<Rightarrow>
                       (pair_with_indexes
                          (entries dictionary_values1 (field_name arrow_field))
                          arrow_column index_type (field_name arrow_field),
                        dictionary_values1))
              | t \<Rightarrow>
                  (readFlatColumn lib arrow_column (field_name arrow_field) format_name
                     read_ints_as_dates,
                   dictionary_values)))))"
| "readStructElements lib [] cols format_name dictionary_values read_ints_as_dates =
     (Inr [], dictionary_values)"
| "readStructElements lib (nested_arrow_field # arrow_fields) cols format_name
       dictionary_values read_ints_as_dates =
     (case cols of
        [] \<Rightarrow> (Inl Undefined, dictionary_values)
      | nested_arrow_column # rest \<Rightarrow>
          (case readColumnFromArrowColumn lib nested_arrow_field nested_arrow_column format_name
                  dictionary_values read_ints_as_dates of
             (Inl e, dictionary_values1) \<Rightarrow> (Inl e, dictionary_values1)
           | (Inr element, dictionary_values1) \<Rightarrow>
               (case readStructElements lib arrow_fields rest format_name dictionary_values1
                       read_ints_as_dates of
                  (Inl e, dictionary_values2) \<Rightarrow> (Inl e, dictionary_values2)
                | (Inr elements, dictionary_values2) \<Rightarrow>
                    (Inr (element # elements), dictionary_values2))))"
  by pat_completeness auto
termination
  apply (relation "measure (\<lambda>x. case x of
      Inl (lib, f, c, fmt, d, r) \<Rightarrow> 2 * size (field_type f) + (if nullable f then 1 else 0)
    | Inr (lib, fs, cs, fmt, d, r) \<Rightarrow> 2 * size_list (\<lambda>f. Suc (size (field_type f))) fs)")
  apply (auto simp: field_type_WithNullable nullable_WithNullable
      dest: nested_field_smaller struct_fields_smaller dictionary_field_smaller)
  done

declare readColumnFromArrowColumn.simps [simp del]


section \<open>Columnar format converter: the conversion session\<close>

text \<open>
  The session object: the target header (a block: its columns in order), the format
  name, the two policy flags and the dictionary cache.
\<close>

record OptimizedArrowColumnToCHColumn =
  header :: "ColumnWithTypeAndName list"
  format_name :: string
  import_nested :: bool
  allow_missing_columns :: bool
  dictionary_values :: dictionary_cache

text \<open>\<open>Block::has\<close>: is there a column of that name.\<close>

definition has :: "ColumnWithTypeAndName list \<Rightarrow> string \<Rightarrow> bool" where
  "has block n \<longleftrightarrow> n \<in> set (map name block)"

text \<open>
  \<open>Schema::GetFieldIndex\<close> answers -1 for a name that no field has and for a name
  that several fields have; \<open>schema->field(schema->GetFieldIndex(n))\<close> is the one field
  of that name, and has no defined behaviour at -1.
\<close>

definition GetFieldIndex :: "arrow_field list \<Rightarrow> string \<Rightarrow> nat option" where
  "GetFieldIndex schema n =
     (case filter (\<lambda>i. field_name (schema ! i) = n) [0..<length schema] of
        [i] \<Rightarrow> Some i
      | _ \<Rightarrow> None)"

definition schema_field :: "arrow_field list \<Rightarrow> string \<Rightarrow> Exception + arrow_field" where
  "schema_field schema n =
     (case GetFieldIndex schema n of None \<Rightarrow> Inl Undefined | Some i \<Rightarrow> Inr (schema ! i))"

subsection \<open>arrowSchemaToCHHeader\<close>

text \<open>
  For each field an empty array of its type is built and converted, with a dictionary
  cache of its own and \<open>read_ints_as_dates\<close> false; the sample columns make the block.
  The counter of materialised dictionaries runs on from field to field, so that no two
  objects share an address.
\<close>

fun sample_columns ::
  "Library \<Rightarrow> string \<Rightarrow> arrow_field list \<Rightarrow> nat \<Rightarrow> Exception + ColumnWithTypeAndName list" where
  "sample_columns lib fmt [] n = Inr []"
| "sample_columns lib fmt (field # rest) n =
     (case MakeEmptyArray lib (field_type field) of
        Inl status \<Rightarrow> Inl (UNKNOWN_EXCEPTION fmt (field_name field) status)
      | Inr arrow_array \<Rightarrow>
          (case readColumnFromArrowColumn lib field
                  \<lparr>chunks = [arrow_array], chunked_type = field_type field\<rparr> fmt
                  \<lparr>entries = Map.empty, materialised = n\<rparr> False of
             (Inl e, dict_values) \<Rightarrow> Inl e
           | (Inr sample_column, dict_values) \<Rightarrow>
               (case sample_columns lib fmt rest (materialised dict_values) of
                  Inl e \<Rightarrow> Inl e
                | Inr sample_cols \<Rightarrow> Inr (sample_column # sample_cols))))"

definition arrowSchemaToCHHeader ::
  "Library \<Rightarrow> arrow_field list \<Rightarrow> string \<Rightarrow> Exception + ColumnWithTypeAndName list" where
  "arrowSchemaToCHHeader lib schema fmt = sample_columns lib fmt schema 0"

subsection \<open>arrowColumnsToCHChunk\<close>

text \<open>
  \<open>NameToColumnPtr\<close> is an unordered map from names to columns, modelled as the list
  of its entries in the order in which the map iterates: \<open>begin()\<close> is the head, and the
  keys are distinct. The source leaves that order unspecified;
  \<open>fill_name_to_column_ptr\<close> below fixes it to the order of the table. A chunk is its
  columns and its number of rows.
\<close>

type_synonym NameToColumnPtr = "(string \<times> ChunkedArray) list"

record Chunk =
  columns :: "IColumn list"
  num_rows :: nat

text \<open>
  \<open>castColumn\<close> inside the \<open>try\<close> block: an exception leaves with the message added.
\<close>

definition cast_to_header ::
  "Library \<Rightarrow> ColumnWithTypeAndName \<Rightarrow> ColumnWithTypeAndName \<Rightarrow> Exception + IColumn" where
  "cast_to_header lib header_column c =
     (case castColumn lib c (type header_column) of
        Inl e \<Rightarrow> Inl (AddMessage e (name header_column) (type c) (type header_column))
      | Inr casted \<Rightarrow> Inr casted)"

text \<open>
  The search of a header column in a nested table, the body of \<open>if (import_nested)\<close>.
  It answers the extracted column, if there is one, and leaves the dictionary cache and
  the map \<open>nested_tables\<close> as the body leaves them. A nested table is converted on the
  first search of its name only.
\<close>

definition read_from_nested ::
  "Library \<Rightarrow> string \<Rightarrow> NameToColumnPtr \<Rightarrow> arrow_field list \<Rightarrow> ColumnWithTypeAndName
    \<Rightarrow> dictionary_cache \<times> (string \<Rightarrow> ColumnWithTypeAndName list option)
    \<Rightarrow> (Exception + ColumnWithTypeAndName option)
        \<times> dictionary_cache \<times> (string \<Rightarrow> ColumnWithTypeAndName list option)" where
  "read_from_nested lib fmt name_to_column_ptr schema header_column st =
     (case st of (dicts, nested_tables) \<Rightarrow>
        (let search_nested_table_name = extractTableName lib (name header_column) in
         case map_of name_to_column_ptr search_nested_table_name of
           None \<Rightarrow> (Inr None, dicts, nested_tables)
         | Some arrow_column \<Rightarrow>
             (case nested_tables search_nested_table_name of
                Some block \<Rightarrow>
                  (Inr (extractColumn lib block (name header_column)), dicts, nested_tables)
              | None \<Rightarrow>
                  (case schema_field schema search_nested_table_name of
                     Inl e \<Rightarrow> (Inl e, dicts, nested_tables)
                   | Inr arrow_field \<Rightarrow>
                       (case readColumnFromArrowColumn lib arrow_field arrow_column fmt dicts True of
                          (Inl e, dicts1) \<Rightarrow> (Inl e, dicts1, nested_tables)
                        | (Inr c, dicts1) \<Rightarrow>
                            (Inr (extractColumn lib [c] (name header_column)), dicts1,
                             nested_tables(search_nested_table_name \<mapsto> [c])))))))"

text \<open>
  The body of the loop over the header, for one header column: the column to append to
  \<open>columns_list\<close>, or the exception thrown.
\<close>

definition header_column_step ::
  "Library \<Rightarrow> OptimizedArrowColumnToCHColumn \<Rightarrow> NameToColumnPtr \<Rightarrow> arrow_field list \<Rightarrow> nat
    \<Rightarrow> ColumnWithTypeAndName
    \<Rightarrow> dictionary_cache \<times> (string \<Rightarrow> ColumnWithTypeAndName list option)
    \<Rightarrow> (Exception + IColumn)
        \<times> dictionary_cache \<times> (string \<Rightarrow> ColumnWithTypeAndName list option)" where
  "header_column_step lib this name_to_column_ptr schema rows_count header_column st =
     (case map_of name_to_column_ptr (name header_column) of
        None \<Rightarrow>
          (case (if import_nested this
                 then read_from_nested lib (format_name this) name_to_column_ptr schema
                        header_column st
                 else (Inr None, st)) of
             (Inl e, st1) \<Rightarrow> (Inl e, st1)
           | (Inr (Some c), st1) \<Rightarrow> (cast_to_header lib header_column c, st1)
           | (Inr None, st1) \<Rightarrow>
               (if \<not> allow_missing_columns this
                then (Inl (THERE_IS_NO_COLUMN (name header_column)), st1)
                else (Inr (cloneResized lib (column header_column) rows_count), st1)))
      | Some arrow_column \<Rightarrow>
          (case schema_field schema (name header_column) of
             Inl e \<Rightarrow> (Inl e, st)
           | Inr arrow_field \<Rightarrow>
               (case readColumnFromArrowColumn lib arrow_field arrow_column (format_name this)
                       (fst st) True of
                  (Inl e, dicts1) \<Rightarrow> (Inl e, dicts1, snd st)
                | (Inr c, dicts1) \<Rightarrow> (cast_to_header lib header_column c, dicts1, snd st))))"

text \<open>
  The loop over the header. It returns \<open>columns_list\<close>, or the exception that ended
  it, and the two pieces of state that the body works on: the dictionary cache of the
  session and the local map \<open>nested_tables\<close>.
\<close>

fun header_loop ::
  "Library \<Rightarrow> OptimizedArrowColumnToCHColumn \<Rightarrow> NameToColumnPtr \<Rightarrow> arrow_field list \<Rightarrow> nat
    \<Rightarrow> ColumnWithTypeAndName list
    \<Rightarrow> dictionary_cache \<times> (string \<Rightarrow> ColumnWithTypeAndName list option)
    \<Rightarrow> IColumn list
    \<Rightarrow> (Exception + IColumn list)
        \<times> dictionary_cache \<times> (string \<Rightarrow> ColumnWithTypeAndName list option)" where
  "header_loop lib this name_to_column_ptr schema rows_count [] st columns_list =
     (Inr columns_list, st)"
| "header_loop lib this name_to_column_ptr schema rows_count (header_column # rest) st columns_list =
     (case header_column_step lib this name_to_column_ptr schema rows_count header_column st of
        (Inl e, st1) \<Rightarrow> (Inl e, st1)
      | (Inr c, st1) \<Rightarrow>
          header_loop lib this name_to_column_ptr schema rows_count rest st1 (columns_list @ [c]))"

text \<open>
  \<open>arrowColumnsToCHChunk\<close>. The result is the new value of \<open>res\<close>, or the exception,
  in which case \<open>res\<close> is as it was; the session comes back with its dictionary cache.
  \<open>Chunk::setColumns\<close> (ClickHouse) is modelled as the plain assignment of the columns
  and the number of rows.
\<close>

definition arrowColumnsToCHChunk ::
  "Library \<Rightarrow> OptimizedArrowColumnToCHColumn \<Rightarrow> NameToColumnPtr \<Rightarrow> arrow_field list
    \<Rightarrow> (Exception + Chunk) \<times> OptimizedArrowColumnToCHColumn" where
  "arrowColumnsToCHChunk lib this name_to_column_ptr schema =
     (if name_to_column_ptr = [] then (Inl INCORRECT_NUMBER_OF_COLUMNS, this)
      else
        (let rows_count = chunked_length (snd (hd name_to_column_ptr))
         in case header_loop lib this name_to_column_ptr schema rows_count (header this)
                   (dictionary_values this, Map.empty) [] of
              (Inl e, st) \<Rightarrow> (Inl e, this\<lparr>dictionary_values := fst st\<rparr>)
            | (Inr columns_list, st) \<Rightarrow>
                (Inr \<lparr>columns = columns_list, num_rows = rows_count\<rparr>,
                 this\<lparr>dictionary_values := fst st\<rparr>)))"

subsection \<open>arrowTableToCHChunk\<close>

text \<open>
  A table is its fields, each with its column. \<open>Table::GetColumnByName\<close> answers a null
  pointer for a name that \<open>GetFieldIndex\<close> does not find once.
\<close>

type_synonym Table = "(arrow_field \<times> ChunkedArray) list"

definition GetColumnByName :: "Table \<Rightarrow> string \<Rightarrow> ChunkedArray option" where
  "GetColumnByName table n =
     (case GetFieldIndex (map fst table) n of None \<Rightarrow> None | Some i \<Rightarrow> Some (snd (table ! i)))"

fun fill_name_to_column_ptr :: "Table \<Rightarrow> string list \<Rightarrow> NameToColumnPtr \<Rightarrow> Exception + NameToColumnPtr" where
  "fill_name_to_column_ptr table [] name_to_column_ptr = Inr name_to_column_ptr"
| "fill_name_to_column_ptr table (column_name # rest) name_to_column_ptr =
     (case GetColumnByName table column_name of
        None \<Rightarrow> Inl (DUPLICATE_COLUMN column_name)
      | Some arrow_column \<Rightarrow>
          fill_name_to_column_ptr table rest
            (AList.update column_name arrow_column name_to_column_ptr))"

text \<open>
  \<open>arrowTableToCHChunk\<close>: the conversion runs only if the table has a column; if it
  has none, \<open>res\<close> comes back as it went in.
\<close>

definition arrowTableToCHChunk ::
  "Library \<Rightarrow> OptimizedArrowColumnToCHColumn \<Rightarrow> Chunk \<Rightarrow> Table
    \<Rightarrow> (Exception + Chunk) \<times> OptimizedArrowColumnToCHColumn" where
  "arrowTableToCHChunk lib this res table =
     (case fill_name_to_column_ptr table (map (\<lambda>fc. field_name (fst fc)) table) [] of
        Inl e \<Rightarrow> (Inl e, this)
      | Inr name_to_column_ptr \<Rightarrow>
          (if name_to_column_ptr \<noteq> []
           then arrowColumnsToCHChunk lib this name_to_column_ptr (map fst table)
           else (Inr res, this)))"

subsection \<open>getMissingColumns\<close>

text \<open>The body of the loop, for the header column at one position.\<close>

definition is_missing ::
  "Library \<Rightarrow> OptimizedArrowColumnToCHColumn \<Rightarrow> ColumnWithTypeAndName list
    \<Rightarrow> ColumnWithTypeAndName \<Rightarrow> bool" where
  "is_missing lib this block_from_arrow c \<longleftrightarrow>
     \<not> has block_from_arrow (name c)
     \<and> \<not> (import_nested this \<and> has block_from_arrow (extractTableName lib (name c))
          \<and> extractColumn lib block_from_arrow (name c) \<noteq> None)"

fun missing_loop ::
  "Library \<Rightarrow> OptimizedArrowColumnToCHColumn \<Rightarrow> ColumnWithTypeAndName list
    \<Rightarrow> ColumnWithTypeAndName list \<Rightarrow> nat \<Rightarrow> nat list \<Rightarrow> Exception + nat list" where
  "missing_loop lib this block_from_arrow [] i missing_columns = Inr missing_columns"
| "missing_loop lib this block_from_arrow (c # rest) i missing_columns =
     (if is_missing lib this block_from_arrow c
      then
        (if \<not> allow_missing_columns this then Inl (THERE_IS_NO_COLUMN (name c))
         else missing_loop lib this block_from_arrow rest (Suc i) (missing_columns @ [i]))
      else missing_loop lib this block_from_arrow rest (Suc i) missing_columns)"

definition getMissingColumns ::
  "Library \<Rightarrow> OptimizedArrowColumnToCHColumn \<Rightarrow> arrow_field list \<Rightarrow> Exception + nat list" where
  "getMissingColumns lib this schema =
     (case arrowSchemaToCHHeader lib schema (format_name this) of
        Inl e \<Rightarrow> Inl e
      | Inr block_from_arrow \<Rightarrow> missing_loop lib this block_from_arrow (header this) 0 [])"


section \<open>Auxiliary notions for the statements and the examples\<close>

text \<open>
  A library for the worked examples. The two day numbers are those of one ClickHouse
  version; \<open>castColumn\<close> always succeeds, \<open>cloneResized\<close> resizes a vector of
  numbers, and no nested table is ever found.
\<close>

definition example_lib :: Library where
  "example_lib =
     \<lparr>DATE_LUT_MAX_EXTEND_DAY_NUM = 120530,
      DATE_LUT_MAX_DAY_NUM = 65535,
      castColumn = (\<lambda>c t. Inr (column c)),
      cloneResized = (\<lambda>c n. case c of
          ColumnVector T xs \<Rightarrow> ColumnVector T (take n xs @ replicate (n - length xs) 0)
        | other \<Rightarrow> other),
      extractTableName = takeWhile (\<lambda>ch. ch \<noteq> CHR ''.''),
      extractColumn = (\<lambda>block n. None),
      MakeEmptyArray = (\<lambda>t. Inr (NumericArray []))\<rparr>"

definition example_session :: "ColumnWithTypeAndName list \<Rightarrow> bool \<Rightarrow> OptimizedArrowColumnToCHColumn" where
  "example_session h allow =
     \<lparr>header = h, format_name = ''Parquet'', import_nested = False,
      allow_missing_columns = allow,
      dictionary_values = \<lparr>entries = Map.empty, materialised = 0\<rparr>\<rparr>"

definition int32_column :: "string \<Rightarrow> ColumnWithTypeAndName" where
  "int32_column n = \<lparr>column = ColumnVector Int32 [], type = DataTypeNumber Int32, name = n\<rparr>"

text \<open>The backing type of a decimal column.\<close>

fun column_backing :: "IColumn \<Rightarrow> DecimalType option" where
  "column_backing (ColumnDecimal T xs) = Some T"
| "column_backing c = None"

text \<open>The day numbers that \<open>readColumnWithDate32Data\<close> reads from the slots of a chunk.\<close>

definition date32_values :: "(bool \<times> int) list \<Rightarrow> int list" where
  "date32_values slots = map (\<lambda>slot. reinterpret Int32 (snd slot)) slots"

text \<open>Width of the integer types of Arrow, and the unsigned internal type of a width.\<close>

fun arrow_integer_bits :: "arrow_type \<Rightarrow> nat option" where
  "arrow_integer_bits UINT8 = Some 8"
| "arrow_integer_bits INT8 = Some 8"
| "arrow_integer_bits UINT16 = Some 16"
| "arrow_integer_bits INT16 = Some 16"
| "arrow_integer_bits UINT32 = Some 32"
| "arrow_integer_bits INT32 = Some 32"
| "arrow_integer_bits UINT64 = Some 64"
| "arrow_integer_bits INT64 = Some 64"
| "arrow_integer_bits t = None"

fun unsigned_of_bits :: "nat \<Rightarrow> NumericType option" where
  "unsigned_of_bits n =
     (if n = 8 then Some UInt8 else if n = 16 then Some UInt16
      else if n = 32 then Some UInt32 else if n = 64 then Some UInt64 else None)"

subsection \<open>The cases of the converter and the dictionary cache\<close>

text \<open>
  A column whose field is not nullable and whose first chunk is an Arrow array proper:
  the converter reaches its \<open>switch\<close>.
\<close>

definition plain :: "arrow_field \<Rightarrow> ChunkedArray \<Rightarrow> bool" where
  "plain f c \<longleftrightarrow> \<not> nullable f \<and> (\<exists>chunk0 rest. chunks c = chunk0 # rest \<and> as_CHStringArray chunk0 = None)"

fun is_nested :: "arrow_type \<Rightarrow> bool" where
  "is_nested (MAP f) = True"
| "is_nested (LIST f) = True"
| "is_nested (STRUCT fs) = True"
| "is_nested (DICTIONARY index_type value_type) = True"
| "is_nested t = False"

text \<open>A type in which no dictionary type occurs.\<close>

fun dict_free :: "arrow_type \<Rightarrow> bool" and dict_free_field :: "arrow_field \<Rightarrow> bool" where
  "dict_free (MAP f) = dict_free_field f"
| "dict_free (LIST f) = dict_free_field f"
| "dict_free (STRUCT fs) = list_all dict_free_field fs"
| "dict_free (DICTIONARY index_type value_type) = False"
| "dict_free t = True"
| "dict_free_field (Field n t b) = dict_free t"

text \<open>The measure that goes down along the calls of the converter.\<close>

definition depth :: "arrow_field \<Rightarrow> nat" where
  "depth f = 2 * size (field_type f) + (if nullable f then 1 else 0)"

text \<open>The dictionary and the indexes of a low-cardinality column.\<close>

fun dictionary_of_column :: "IColumn \<Rightarrow> IColumn option" where
  "dictionary_of_column (ColumnLowCardinality dict indexes) = Some dict"
| "dictionary_of_column c = None"

fun indexes_of_column :: "IColumn \<Rightarrow> IColumn option" where
  "indexes_of_column (ColumnLowCardinality dict indexes) = Some indexes"
| "indexes_of_column c = None"

text \<open>The column of the index arrays of a dictionary-encoded column, as the converter builds it.\<close>

definition arrow_indexes_column :: "ChunkedArray \<Rightarrow> arrow_type \<Rightarrow> Exception + ChunkedArray" where
  "arrow_indexes_column c index_type =
     (case collect indices_of (chunks c) of
        Inl e \<Rightarrow> Inl e
      | Inr indexes_array \<Rightarrow> make_ChunkedArray indexes_array index_type)"

text \<open>The cache of the session after it has converted a list of columns, one after the other.\<close>

fun cache_after ::
  "Library \<Rightarrow> string \<Rightarrow> (arrow_field \<times> ChunkedArray \<times> bool) list \<Rightarrow> dictionary_cache
    \<Rightarrow> dictionary_cache" where
  "cache_after lib fmt [] dv = dv"
| "cache_after lib fmt ((f, c, r) # rest) dv =
     cache_after lib fmt rest (snd (readColumnFromArrowColumn lib f c fmt dv r))"

text \<open>
  A dictionary-encoded column \<open>city\<close> for the examples: 8-bit signed indexes into a
  dictionary of two strings.
\<close>

definition city_field :: arrow_field where
  "city_field = Field ''city'' (DICTIONARY INT8 STRING) False"

definition city_column :: "int list \<Rightarrow> ChunkedArray" where
  "city_column indexes =
     \<lparr>chunks = [DictionaryArray (NumericArray (map (Pair False) indexes))
                  (BinaryArray [(False, ''Oslo''), (False, ''Rome'')])],
      chunked_type = DICTIONARY INT8 STRING\<rparr>"

definition city_dictionary :: ColumnWithTypeAndName where
  "city_dictionary =
     \<lparr>column = ColumnUnique 0
         (ColumnNullable (ColumnString (''Oslo'' @ [CHR 0x00] @ ''Rome'' @ [CHR 0x00]) [5, 10])
            (ColumnVector UInt8 [0, 0])),
      type = DataTypeNullable DataTypeString,
      name = ''dict''\<rparr>"

definition city_cache :: dictionary_cache where
  "city_cache = \<lparr>entries = [''city'' \<mapsto> city_dictionary], materialised = 1\<rparr>"

definition city_result :: "int list \<Rightarrow> ColumnWithTypeAndName" where
  "city_result indexes =
     \<lparr>column = ColumnLowCardinality (column city_dictionary) (ColumnVector UInt8 indexes),
      type = DataTypeLowCardinality (DataTypeNullable DataTypeString),
      name = ''city''\<rparr>"


subsection \<open>List and map columns\<close>



text \<open>The number of elements of a list chunk: the length of its values array.\<close>

fun element_count :: "arrow_array \<Rightarrow> nat" where
  "element_count (ListArray nulls arrow_offsets vals) = array_length vals"
| "element_count chunk = 0"

text \<open>
  An Arrow array of consistent shape: a list array has one more offset than rows, the
  children of a struct array have as many rows as the struct array, and no chunk is a
  \<open>CHStringArray\<close>, which brings its own column.
\<close>

fun well_formed :: "arrow_array \<Rightarrow> bool" where
  "well_formed (ListArray nulls arrow_offsets vals) \<longleftrightarrow>
     length arrow_offsets = Suc (length nulls) \<and> well_formed vals"
| "well_formed (StructArray nulls children) \<longleftrightarrow>
     (\<forall>child \<in> set children. array_length child = length nulls \<and> well_formed child)"
| "well_formed (CHStringArray slots c) \<longleftrightarrow> False"
| "well_formed chunk \<longleftrightarrow> True"

text \<open>A type in which every struct type has a field.\<close>

fun struct_nonempty :: "arrow_type \<Rightarrow> bool" and struct_nonempty_field :: "arrow_field \<Rightarrow> bool" where
  "struct_nonempty (MAP f) = struct_nonempty_field f"
| "struct_nonempty (LIST f) = struct_nonempty_field f"
| "struct_nonempty (STRUCT fs) = (fs \<noteq> [] \<and> list_all struct_nonempty_field fs)"
| "struct_nonempty t = True"
| "struct_nonempty_field (Field n t b) = struct_nonempty t"








subsection \<open>Header columns without a match\<close>

text \<open>
  A header column has no match in a state of the loop: its name is not the name of an
  external column, and the search in a nested table, if nested import is on, finds none.
\<close>

definition no_match ::
  "Library \<Rightarrow> OptimizedArrowColumnToCHColumn \<Rightarrow> NameToColumnPtr \<Rightarrow> arrow_field list
    \<Rightarrow> ColumnWithTypeAndName
    \<Rightarrow> dictionary_cache \<times> (string \<Rightarrow> ColumnWithTypeAndName list option) \<Rightarrow> bool" where
  "no_match lib this name_to_column_ptr schema header_column st \<longleftrightarrow>
     map_of name_to_column_ptr (name header_column) = None
     \<and> (\<not> import_nested this
        \<or> fst (read_from_nested lib (format_name this) name_to_column_ptr schema header_column st)
            = Inr None)"

text \<open>The state after the search of a header column that has no match.\<close>

definition after_search ::
  "Library \<Rightarrow> OptimizedArrowColumnToCHColumn \<Rightarrow> NameToColumnPtr \<Rightarrow> arrow_field list
    \<Rightarrow> ColumnWithTypeAndName
    \<Rightarrow> dictionary_cache \<times> (string \<Rightarrow> ColumnWithTypeAndName list option)
    \<Rightarrow> dictionary_cache \<times> (string \<Rightarrow> ColumnWithTypeAndName list option)" where
  "after_search lib this name_to_column_ptr schema header_column st =
     (if import_nested this
      then snd (read_from_nested lib (format_name this) name_to_column_ptr schema header_column st)
      else st)"

text \<open>No external column has the name of the header column or of its nested table.\<close>

definition absent ::
  "Library \<Rightarrow> OptimizedArrowColumnToCHColumn \<Rightarrow> NameToColumnPtr \<Rightarrow> ColumnWithTypeAndName \<Rightarrow> bool" where
  "absent lib this name_to_column_ptr header_column \<longleftrightarrow>
     map_of name_to_column_ptr (name header_column) = None
     \<and> (\<not> import_nested this
        \<or> map_of name_to_column_ptr (extractTableName lib (name header_column)) = None)"

text \<open>An Arrow column of 32-bit integers in one chunk, for the examples.\<close>

definition int32_chunked :: "int list \<Rightarrow> ChunkedArray" where
  "int32_chunked xs = \<lparr>chunks = [NumericArray (map (Pair False) xs)], chunked_type = INT32\<rparr>"


text \<open>An Arrow column of one chunk with a type that the converter does not know.\<close>

definition time32_chunked :: "int list \<Rightarrow> ChunkedArray" where
  "time32_chunked xs =
     \<lparr>chunks = [NumericArray (map (Pair False) xs)], chunked_type = OTHER ''time32''\<rparr>"


section \<open>Shuffle block reader: properties\<close>

lemma read_loop_Nil:
  "read_loop mr mb [] st =
     (if loop_continues mr mb (buffer_rows st) (buffer_bytes st)
      then (EndOfStream, st, None, []) else (Threshold, st, None, []))"
  by (simp add: read_loop.simps [of mr mb "[]" st] empty_Block_def)

lemma read_loop_Cons:
  "read_loop mr mb (b # bs) st =
     (if loop_continues mr mb (buffer_rows st) (buffer_bytes st)
      then
        (if rows b = 0 then (EndOfStream, st, None, bs)
         else if blocks st \<noteq> [] \<and> \<not> same_identity (hd (blocks st)) b
           then (Mismatch, st, Some b, bs)
         else read_loop mr mb bs
           \<lparr>buffer_rows = buffer_rows st + rows b,
            buffer_bytes = buffer_bytes st + bytes b,
            blocks = blocks st @ [b]\<rparr>)
      else (Threshold, st, None, b # bs))"
  by (simp add: read_loop.simps [of mr mb "b # bs" st])

lemma loop_stops_iff:
  "\<not> loop_continues mr mb R B \<longleftrightarrow>
     R \<noteq> 0 \<and> ((0 \<le> sint mr \<and> mr \<le> R) \<or> (0 \<le> sint mb \<and> mb \<le> B))"
  by (auto simp: loop_continues_def not_less)

lemma acc_inv_step:
  assumes "acc_inv st" and "rows b \<noteq> 0"
    and "blocks st = [] \<or> same_identity (hd (blocks st)) b"
  shows "acc_inv \<lparr>buffer_rows = buffer_rows st + rows b,
            buffer_bytes = buffer_bytes st + bytes b,
            blocks = blocks st @ [b]\<rparr>"
  using assms by (cases "blocks st") (auto simp: acc_inv_def same_identity_def)

lemma acc_inv_seed: "acc_inv (seed p)"
  by (cases p) (auto simp: acc_inv_def seed_def same_identity_def)

lemma read_loop_go:
  "accumulates mr mb st b \<Longrightarrow> read_loop mr mb (b # bs) st = read_loop mr mb bs (push st b)"
  by (auto simp: read_loop_Cons accumulates_def push_def)

lemma read_loop_stop:
  "\<not> accumulates mr mb st b \<Longrightarrow> read_loop mr mb (b # bs) st =
     (if \<not> loop_continues mr mb (buffer_rows st) (buffer_bytes st) then (Threshold, st, None, b # bs)
      else if rows b = 0 then (EndOfStream, st, None, bs)
      else (Mismatch, st, Some b, bs))"
  by (auto simp: read_loop_Cons accumulates_def)

lemma acc_inv_push: "acc_inv st \<Longrightarrow> accumulates mr mb st b \<Longrightarrow> acc_inv (push st b)"
  unfolding push_def by (rule acc_inv_step) (auto simp: accumulates_def)

text \<open>The blocks are taken whole and in order: what was in the stream is what was
  accumulated, then at most one zero-row block (the end-of-stream mark), then the
  pending block and the rest.\<close>

lemma read_loop_whole:
  "read_loop mr mb s st = (ex, st', p, rest) \<Longrightarrow>
     \<exists>new z. blocks st' = blocks st @ new \<and> s = new @ z @ pending_list p @ rest
       \<and> (\<forall>b \<in> set z. rows b = 0) \<and> (ex \<noteq> EndOfStream \<longrightarrow> z = [])
       \<and> (ex = EndOfStream \<longrightarrow> z \<noteq> [] \<or> rest = [])"
proof (induction s arbitrary: st)
  case Nil
  then show ?case by (auto simp: read_loop_Nil pending_list_def split: if_splits)
next
  case (Cons b bs)
  show ?case
  proof (cases "accumulates mr mb st b")
    case True
    with Cons.prems have "read_loop mr mb bs (push st b) = (ex, st', p, rest)"
      by (simp add: read_loop_go)
    from Cons.IH [OF this] obtain new z where
      "blocks st' = blocks st @ b # new" "bs = new @ z @ pending_list p @ rest"
      "\<forall>b \<in> set z. rows b = 0" "ex \<noteq> EndOfStream \<longrightarrow> z = []"
      "ex = EndOfStream \<longrightarrow> z \<noteq> [] \<or> rest = []"
      by (auto simp: push_def)
    then show ?thesis
      by (intro exI [of _ "b # new"] exI [of _ z]) simp
  next
    case False
    with Cons.prems consider
        (thr) "ex = Threshold" "st' = st" "p = None" "rest = b # bs"
      | (eos) "ex = EndOfStream" "st' = st" "p = None" "rest = bs" "rows b = 0"
      | (mis) "ex = Mismatch" "st' = st" "p = Some b" "rest = bs"
      by (auto simp: read_loop_stop split: if_splits)
    then show ?thesis
    proof cases
      case thr
      then show ?thesis by (intro exI [of _ "[]"]) (simp add: pending_list_def)
    next
      case eos
      then show ?thesis
        by (intro exI [of _ "[]"] exI [of _ "[b]"]) (simp add: pending_list_def)
    next
      case mis
      then show ?thesis by (intro exI [of _ "[]"]) (simp add: pending_list_def)
    qed
  qed
qed

lemma read_loop_inv:
  "read_loop mr mb s st = (ex, st', p, rest) \<Longrightarrow> acc_inv st \<Longrightarrow> acc_inv st'"
proof (induction s arbitrary: st)
  case Nil
  then show ?case by (auto simp: read_loop_Nil split: if_splits)
next
  case (Cons b bs)
  show ?case
  proof (cases "accumulates mr mb st b")
    case True
    with Cons.prems have "read_loop mr mb bs (push st b) = (ex, st', p, rest)"
      and "acc_inv (push st b)"
      by (simp_all add: read_loop_go acc_inv_push)
    then show ?thesis by (rule Cons.IH)
  next
    case False
    with Cons.prems show ?thesis by (auto simp: read_loop_stop split: if_splits)
  qed
qed

text \<open>Which exit was taken says why the loop stopped.\<close>

lemma read_loop_exit:
  "read_loop mr mb s st = (ex, st', p, rest) \<Longrightarrow>
     (case ex of
        Threshold \<Rightarrow> \<not> loop_continues mr mb (buffer_rows st') (buffer_bytes st') \<and> p = None
      | EndOfStream \<Rightarrow> loop_continues mr mb (buffer_rows st') (buffer_bytes st') \<and> p = None
      | Mismatch \<Rightarrow> loop_continues mr mb (buffer_rows st') (buffer_bytes st')
          \<and> blocks st' \<noteq> []
          \<and> (\<exists>b. p = Some b \<and> rows b \<noteq> 0 \<and> \<not> same_identity (hd (blocks st')) b))"
proof (induction s arbitrary: st)
  case Nil
  then show ?case by (auto simp: read_loop_Nil split: if_splits)
next
  case (Cons b bs)
  show ?case
  proof (cases "accumulates mr mb st b")
    case True
    with Cons.prems have "read_loop mr mb bs (push st b) = (ex, st', p, rest)"
      by (simp add: read_loop_go)
    then show ?thesis by (rule Cons.IH)
  next
    case False
    with Cons.prems show ?thesis
      by (auto simp: read_loop_stop accumulates_def split: if_splits)
  qed
qed

lemma read_cases:
  assumes "read r = (ex, bs, r')"
  obtains st where
    "read_loop (max_shuffle_read_rows r) (max_shuffle_read_bytes r) (input_stream r)
       (seed (pending_block r)) = (ex, st, pending_block r', input_stream r')"
    "bs = blocks st" "current_block r' = final_Block bs"
    "max_shuffle_read_rows r' = max_shuffle_read_rows r"
    "max_shuffle_read_bytes r' = max_shuffle_read_bytes r"
  using assms by (auto simp: read_def split: prod.splits)

lemma seed_blocks: "blocks (seed p) = pending_list p"
  by (cases p) (simp_all add: seed_def pending_list_def)

lemma read_identity:
  assumes "read r = (ex, bs, r')"
  shows "\<forall>b \<in> set bs. same_identity b (current_block r')"
    and "rows (current_block r') = sum_list (map rows bs)"
proof -
  from assms obtain st where
    loop: "read_loop (max_shuffle_read_rows r) (max_shuffle_read_bytes r) (input_stream r)
       (seed (pending_block r)) = (ex, st, pending_block r', input_stream r')"
    and bs: "bs = blocks st" "current_block r' = final_Block bs"
    by (rule read_cases)
  from read_loop_inv [OF loop acc_inv_seed] have "acc_inv st" .
  with bs show "\<forall>b \<in> set bs. same_identity b (current_block r')"
    by (auto simp: acc_inv_def final_Block_def same_identity_def)
  from bs show "rows (current_block r') = sum_list (map rows bs)"
    by (simp add: final_Block_def concatenateBlocks_def empty_Block_def)
qed

text \<open>Once the stream is exhausted and nothing is pending, every call returns the empty chunk.\<close>

lemma read_exhausted:
  "input_stream r = [] \<Longrightarrow> pending_block r = None \<Longrightarrow>
     read r = (EndOfStream, [], r\<lparr>input_stream := [], pending_block := None, current_block := empty_Block\<rparr>)"
  by (simp add: read_def seed_def read_loop_Nil loop_continues_def final_Block_def)

lemma reads_exhausted:
  "input_stream r = [] \<Longrightarrow> pending_block r = None \<Longrightarrow> map rows (reads n r) = replicate n 0"
  by (induction n arbitrary: r) (simp_all add: read_exhausted empty_Block_def)

lemma reads_Suc:
  "read r = (ex, bs, r') \<Longrightarrow> reads (Suc n) r = current_block r' # reads n r'"
  by simp

lemma three_blocks:
  assumes r: "input_stream r = [b1, b2, b3]" "pending_block r = None"
      "max_shuffle_read_rows r = 100"
      "sint (max_shuffle_read_bytes r) < 0 \<or> bytes b1 < max_shuffle_read_bytes r"
    and b: "rows b1 = 5" "rows b2 = 5" "rows b3 = 5" "same_identity b1 b2" "\<not> same_identity b1 b3"
  shows "map rows (reads (Suc (Suc n)) r) = 10 # 5 # replicate n 0"
proof -
  obtain ex bs r' where 1: "read r = (ex, bs, r')" by (cases "read r") 
  obtain ex2 bs2 r'' where 2: "read r' = (ex2, bs2, r'')" by (cases "read r'")
  have first: "bs = [b1, b2] \<and>
      (pending_block r' = Some b3 \<and> input_stream r' = [] \<or> pending_block r' = None \<and> input_stream r' = [b3])
      \<and> max_shuffle_read_rows r' = 100"
    using 1 r b
    by (auto simp: read_def seed_def read_loop_Cons read_loop_Nil loop_continues_def
        split: if_splits)
  have second: "bs2 = [b3] \<and> pending_block r'' = None \<and> input_stream r'' = []"
    using 2 first b
    by (auto simp: read_def seed_def read_loop_Cons read_loop_Nil loop_continues_def
        split: if_splits)
  have "rows (current_block r') = 10" "rows (current_block r'') = 5"
    using read_identity(2) [OF 1] read_identity(2) [OF 2] first second b by simp_all
  moreover have "map rows (reads n r'') = replicate n 0"
    using second by (simp add: reads_exhausted)
  ultimately show ?thesis
    by (simp only: reads_Suc [OF 1] reads_Suc [OF 2] list.map)
qed

lemma two_blocks:
  assumes r: "pending_block r = None" "input_stream r = b1 # b2 # rest"
      "max_shuffle_read_rows r = 8"
      "sint (max_shuffle_read_bytes r) < 0 \<or> bytes b1 < max_shuffle_read_bytes r"
    and b: "rows b1 = 5" "rows b2 = 5" "same_identity b1 b2"
  shows "read r = (Threshold, [b1, b2],
      r\<lparr>input_stream := rest, pending_block := None,
        current_block := \<lparr>info = info b1, rows = 10, bytes = bytes b1 + bytes b2\<rparr>\<rparr>)"
  using r b
  by (simp add: read_def seed_def read_loop_Cons loop_continues_def final_Block_def
      concatenateBlocks_def read_loop.simps [of _ _ rest])

lemma read_stop_reason:
  assumes "read r = (ex, bs, r')"
  shows "\<exists>z. pending_list (pending_block r) @ input_stream r
            = bs @ z @ pending_list (pending_block r') @ input_stream r'
          \<and> (\<forall>b \<in> set z. rows b = 0)
          \<and> (ex \<noteq> EndOfStream \<longrightarrow> z = [])
          \<and> (ex = EndOfStream \<longrightarrow> z \<noteq> [] \<or> input_stream r' = [])"
    and "ex = Threshold \<Longrightarrow> bs \<noteq> [] \<and> pending_block r' = None
          \<and> (0 \<le> sint (max_shuffle_read_rows r)
                \<and> max_shuffle_read_rows r \<le> sum_list (map rows bs)
              \<or> 0 \<le> sint (max_shuffle_read_bytes r)
                \<and> max_shuffle_read_bytes r \<le> sum_list (map bytes bs))"
    and "ex = EndOfStream \<Longrightarrow> pending_block r' = None"
    and "ex = Mismatch \<Longrightarrow> bs \<noteq> []
          \<and> (\<exists>b. pending_block r' = Some b \<and> rows b \<noteq> 0 \<and> \<not> same_identity (hd bs) b)"
proof -
  from assms obtain st where
    loop: "read_loop (max_shuffle_read_rows r) (max_shuffle_read_bytes r) (input_stream r)
       (seed (pending_block r)) = (ex, st, pending_block r', input_stream r')"
    and bs: "bs = blocks st"
    by (rule read_cases)
  from read_loop_inv [OF loop acc_inv_seed] have inv: "acc_inv st" .
  note ex = read_loop_exit [OF loop]
  from read_loop_whole [OF loop] obtain new z where
    "blocks st = pending_list (pending_block r) @ new"
    "input_stream r = new @ z @ pending_list (pending_block r') @ input_stream r'"
    "\<forall>b \<in> set z. rows b = 0" "ex \<noteq> EndOfStream \<longrightarrow> z = []"
    "ex = EndOfStream \<longrightarrow> z \<noteq> [] \<or> input_stream r' = []"
    by (auto simp: seed_blocks)
  with bs show "\<exists>z. pending_list (pending_block r) @ input_stream r
            = bs @ z @ pending_list (pending_block r') @ input_stream r'
          \<and> (\<forall>b \<in> set z. rows b = 0)
          \<and> (ex \<noteq> EndOfStream \<longrightarrow> z = [])
          \<and> (ex = EndOfStream \<longrightarrow> z \<noteq> [] \<or> input_stream r' = [])"
    by (intro exI [of _ z]) simp
  {
    assume "ex = Threshold"
    with ex have stop: "\<not> loop_continues (max_shuffle_read_rows r) (max_shuffle_read_bytes r)
        (buffer_rows st) (buffer_bytes st)" and p: "pending_block r' = None"
      by simp_all
    from stop inv bs have "sum_list (map rows bs) \<noteq> 0"
      by (simp add: loop_stops_iff acc_inv_def)
    then have "bs \<noteq> []" by auto
    with stop inv bs p show "bs \<noteq> [] \<and> pending_block r' = None
          \<and> (0 \<le> sint (max_shuffle_read_rows r)
                \<and> max_shuffle_read_rows r \<le> sum_list (map rows bs)
              \<or> 0 \<le> sint (max_shuffle_read_bytes r)
                \<and> max_shuffle_read_bytes r \<le> sum_list (map bytes bs))"
      by (simp add: loop_stops_iff acc_inv_def)
  }
  {
    assume "ex = EndOfStream"
    with ex show "pending_block r' = None" by simp
  }
  {
    assume "ex = Mismatch"
    with ex bs show "bs \<noteq> []
          \<and> (\<exists>b. pending_block r' = Some b \<and> rows b \<noteq> 0 \<and> \<not> same_identity (hd bs) b)"
      by simp
  }
qed

lemma read_three:
  "read (reader [blk 0 5, blk 0 5, blk 1 5] 100 (- 1)) =
     (Mismatch, [blk 0 5, blk 0 5],
      \<lparr>input_stream = [], pending_block = Some (blk 1 5), max_shuffle_read_rows = 100,
       max_shuffle_read_bytes = - 1,
       current_block = \<lparr>info = \<lparr>is_overflows = False, bucket_num = 0\<rparr>, rows = 10, bytes = 80\<rparr>\<rparr>)"
  by (simp add: read_def reader_def seed_def read_loop_Cons read_loop_Nil loop_continues_def
      blk_def same_identity_def final_Block_def concatenateBlocks_def empty_Block_def)

text \<open>
  Claim C1 (shuffle boundary preservation). Whatever the reader's state, the blocks that
  one call of \<open>read\<close> merges into the chunk it returns all carry the chunk's own
  \<open>(is_overflows, bucket_num)\<close> tags, and the chunk's rows are exactly theirs: no chunk
  mixes two identities. For the stream of three blocks of 5 rows in buckets 0, 0 and 1,
  read with \<open>max_rows = 100\<close> and the byte threshold disabled (or not yet reached by the
  first block), successive calls return chunks of 10 rows, 5 rows, and then only empty
  chunks.
\<close>

theorem shuffle_boundary_preservation:
  "(read r = (ex, bs, r') \<longrightarrow>
      rows (current_block r') = sum_list (map rows bs)
      \<and> (\<forall>b \<in> set bs. same_identity b (current_block r')))
   \<and> (input_stream r = [b1, b2, b3] \<and> pending_block r = None
        \<and> max_shuffle_read_rows r = 100
        \<and> (sint (max_shuffle_read_bytes r) < 0 \<or> bytes b1 < max_shuffle_read_bytes r)
        \<and> rows b1 = 5 \<and> rows b2 = 5 \<and> rows b3 = 5
        \<and> bucket_num (info b1) = 0 \<and> bucket_num (info b2) = 0 \<and> bucket_num (info b3) = 1
        \<and> is_overflows (info b1) = is_overflows (info b2)
      \<longrightarrow> map rows (reads (Suc (Suc n)) r) = 10 # 5 # replicate n 0)"
proof (intro conjI impI)
  assume "read r = (ex, bs, r')"
  then show "rows (current_block r') = sum_list (map rows bs)"
    and "\<forall>b \<in> set bs. same_identity b (current_block r')"
    by (rule read_identity)+
next
  assume a: "input_stream r = [b1, b2, b3] \<and> pending_block r = None
        \<and> max_shuffle_read_rows r = 100
        \<and> (sint (max_shuffle_read_bytes r) < 0 \<or> bytes b1 < max_shuffle_read_bytes r)
        \<and> rows b1 = 5 \<and> rows b2 = 5 \<and> rows b3 = 5
        \<and> bucket_num (info b1) = 0 \<and> bucket_num (info b2) = 0 \<and> bucket_num (info b3) = 1
        \<and> is_overflows (info b1) = is_overflows (info b2)"
  then have "same_identity b1 b2" "\<not> same_identity b1 b3"
    by (simp_all add: same_identity_def)
  with a show "map rows (reads (Suc (Suc n)) r) = 10 # 5 # replicate n 0"
    by (intro three_blocks) simp_all
qed

theorem shuffle_boundary_preservation_witness:
  "read (reader [blk 0 5, blk 0 5, blk 1 5] 100 (- 1)) =
     (Mismatch, [blk 0 5, blk 0 5],
      \<lparr>input_stream = [], pending_block = Some (blk 1 5), max_shuffle_read_rows = 100,
       max_shuffle_read_bytes = - 1,
       current_block = \<lparr>info = \<lparr>is_overflows = False, bucket_num = 0\<rparr>, rows = 10, bytes = 80\<rparr>\<rparr>)
   \<and> same_identity (blk 0 5)
        \<lparr>info = \<lparr>is_overflows = False, bucket_num = 0\<rparr>, rows = 10, bytes = 80\<rparr>
   \<and> map rows (reads 4 (reader [blk 0 5, blk 0 5, blk 1 5] 100 (- 1))) = [10, 5, 0, 0]"
proof -
  let ?r = "reader [blk 0 5, blk 0 5, blk 1 5] 100 (- 1)"
  let ?c = "\<lparr>info = \<lparr>is_overflows = False, bucket_num = 0\<rparr>, rows = 10, bytes = 80\<rparr>"
  let ?r' = "\<lparr>input_stream = [], pending_block = Some (blk 1 5), max_shuffle_read_rows = 100,
       max_shuffle_read_bytes = - 1, current_block = ?c\<rparr>"
  note inst = shuffle_boundary_preservation
    [of ?r Mismatch "[blk 0 5, blk 0 5]" ?r' "blk 0 5" "blk 0 5" "blk 1 5" 2]
  have 1: "read ?r = (Mismatch, [blk 0 5, blk 0 5], ?r')" by (rule read_three)
  from inst 1 have "\<forall>b \<in> set [blk 0 5, blk 0 5]. same_identity b (current_block ?r')"
    by blast
  then have 2: "same_identity (blk 0 5) ?c" by simp
  have "map rows (reads (Suc (Suc 2)) ?r) = 10 # 5 # replicate 2 0"
    using inst by (simp add: reader_def blk_def)
  then have 3: "map rows (reads 4 ?r) = [10, 5, 0, 0]"
    by (simp add: numeral_eq_Suc)
  from 1 2 3 show ?thesis by blast
qed

text \<open>
  Claim C4 (threshold stop). With \<open>max_rows = 8\<close>, nothing pending and a stream that
  starts with two blocks of 5 rows of one identity, \<open>read\<close> leaves by the loop guard with
  exactly these two blocks (10 rows), the byte threshold being disabled or not yet reached by
  the first block. In general the chunk is made of whole blocks, taken in order from the
  pending slot and the stream, and the loop has three ways out: the guard, only once a block
  has been accumulated and a threshold that is not negative has been reached; a zero-row
  block, or the end of the stream; a block of another identity, which becomes pending.
\<close>

theorem threshold_stop:
  "(pending_block r = None \<and> input_stream r = b1 # b2 # rest
      \<and> max_shuffle_read_rows r = 8
      \<and> (sint (max_shuffle_read_bytes r) < 0 \<or> bytes b1 < max_shuffle_read_bytes r)
      \<and> rows b1 = 5 \<and> rows b2 = 5 \<and> same_identity b1 b2
    \<longrightarrow> read r = (Threshold, [b1, b2],
          r\<lparr>input_stream := rest, pending_block := None,
            current_block := \<lparr>info = info b1, rows = 10, bytes = bytes b1 + bytes b2\<rparr>\<rparr>))
   \<and> (read r = (ex, bs, r') \<longrightarrow>
        (\<exists>z. pending_list (pending_block r) @ input_stream r
                = bs @ z @ pending_list (pending_block r') @ input_stream r'
            \<and> (\<forall>b \<in> set z. rows b = 0)
            \<and> (ex \<noteq> EndOfStream \<longrightarrow> z = [])
            \<and> (ex = EndOfStream \<longrightarrow> z \<noteq> [] \<or> input_stream r' = []))
      \<and> (ex = Threshold \<longrightarrow> bs \<noteq> [] \<and> pending_block r' = None
            \<and> (0 \<le> sint (max_shuffle_read_rows r)
                  \<and> max_shuffle_read_rows r \<le> sum_list (map rows bs)
                \<or> 0 \<le> sint (max_shuffle_read_bytes r)
                  \<and> max_shuffle_read_bytes r \<le> sum_list (map bytes bs)))
      \<and> (ex = EndOfStream \<longrightarrow> pending_block r' = None)
      \<and> (ex = Mismatch \<longrightarrow> bs \<noteq> []
            \<and> (\<exists>b. pending_block r' = Some b \<and> rows b \<noteq> 0 \<and> \<not> same_identity (hd bs) b)))"
proof (intro conjI impI)
  assume "pending_block r = None \<and> input_stream r = b1 # b2 # rest
      \<and> max_shuffle_read_rows r = 8
      \<and> (sint (max_shuffle_read_bytes r) < 0 \<or> bytes b1 < max_shuffle_read_bytes r)
      \<and> rows b1 = 5 \<and> rows b2 = 5 \<and> same_identity b1 b2"
  then show "read r = (Threshold, [b1, b2],
          r\<lparr>input_stream := rest, pending_block := None,
            current_block := \<lparr>info = info b1, rows = 10, bytes = bytes b1 + bytes b2\<rparr>\<rparr>)"
    by (intro two_blocks) simp_all
next
  assume r: "read r = (ex, bs, r')"
  from read_stop_reason(1) [OF r]
  show "\<exists>z. pending_list (pending_block r) @ input_stream r
                = bs @ z @ pending_list (pending_block r') @ input_stream r'
            \<and> (\<forall>b \<in> set z. rows b = 0)
            \<and> (ex \<noteq> EndOfStream \<longrightarrow> z = [])
            \<and> (ex = EndOfStream \<longrightarrow> z \<noteq> [] \<or> input_stream r' = [])" .
  {
    assume "ex = Threshold"
    from read_stop_reason(2) [OF r this]
    show "bs \<noteq> []" and "pending_block r' = None"
      and "0 \<le> sint (max_shuffle_read_rows r)
                  \<and> max_shuffle_read_rows r \<le> sum_list (map rows bs)
                \<or> 0 \<le> sint (max_shuffle_read_bytes r)
                  \<and> max_shuffle_read_bytes r \<le> sum_list (map bytes bs)"
      by simp_all
  }
  {
    assume "ex = EndOfStream"
    from read_stop_reason(3) [OF r this] show "pending_block r' = None" .
  }
  {
    assume "ex = Mismatch"
    from read_stop_reason(4) [OF r this]
    show "bs \<noteq> []"
      and "\<exists>b. pending_block r' = Some b \<and> rows b \<noteq> 0 \<and> \<not> same_identity (hd bs) b"
      by simp_all
  }
qed

theorem threshold_stop_witness:
  "read (reader [blk 0 5, blk 0 5, blk 0 5] 8 (- 1)) =
     (Threshold, [blk 0 5, blk 0 5],
      \<lparr>input_stream = [blk 0 5], pending_block = None, max_shuffle_read_rows = 8,
       max_shuffle_read_bytes = - 1,
       current_block = \<lparr>info = \<lparr>is_overflows = False, bucket_num = 0\<rparr>, rows = 10, bytes = 80\<rparr>\<rparr>)
   \<and> (8 :: 64 word) \<le> sum_list (map rows [blk 0 5, blk 0 5])"
proof -
  let ?r = "reader [blk 0 5, blk 0 5, blk 0 5] 8 (- 1)"
  let ?c = "\<lparr>info = \<lparr>is_overflows = False, bucket_num = 0\<rparr>, rows = 10, bytes = 80\<rparr>"
  let ?r' = "\<lparr>input_stream = [blk 0 5], pending_block = None, max_shuffle_read_rows = 8,
       max_shuffle_read_bytes = - 1, current_block = ?c\<rparr>"
  note inst = threshold_stop
    [of ?r "blk 0 5" "blk 0 5" "[blk 0 5]" Threshold "[blk 0 5, blk 0 5]" ?r']
  have 1: "read ?r = (Threshold, [blk 0 5, blk 0 5], ?r')"
    using inst by (simp add: reader_def blk_def same_identity_def)
  with inst have "0 \<le> sint (max_shuffle_read_rows ?r)
                  \<and> max_shuffle_read_rows ?r \<le> sum_list (map rows [blk 0 5, blk 0 5])
                \<or> 0 \<le> sint (max_shuffle_read_bytes ?r)
                  \<and> max_shuffle_read_bytes ?r \<le> sum_list (map bytes [blk 0 5, blk 0 5])"
    by blast
  then have 2: "(8 :: 64 word) \<le> sum_list (map rows [blk 0 5, blk 0 5])"
    by (simp add: reader_def)
  from 1 2 show ?thesis by blast
qed

section \<open>Columnar format converter: properties of the readers\<close>

subsection \<open>Loops over chunks\<close>

lemma collect_all_Inr:
  "\<forall>x \<in> set xs. f x = Inr (g x) \<Longrightarrow> collect f xs = Inr (map g xs)"
  by (induction xs) simp_all

lemma collect_first_Inl:
  "\<forall>x \<in> set pre. \<exists>y. f x = Inr y \<Longrightarrow> f x = Inl e \<Longrightarrow> collect f (pre @ x # post) = Inl e"
  by (induction pre) (auto split: sum.splits)

subsection \<open>Decimal width\<close>

lemma max_precision_fits:
  "T \<noteq> DateTime64 \<Longrightarrow>
     (10::nat) ^ max_precision T \<le> 2 ^ (decimal_bits T - 1)
     \<and> (2::nat) ^ (decimal_bits T - 1) < 10 ^ Suc (max_precision T)"
  by (cases T) simp_all

lemma decimal_backing_covers:
  "precision \<le> max_precision Decimal256 \<Longrightarrow> precision \<le> max_precision (decimal_backing precision)"
  by (simp add: decimal_backing_def)

lemma decimal_backing_narrowest:
  "T \<noteq> DateTime64 \<Longrightarrow> decimal_bits T < decimal_bits (decimal_backing precision) \<Longrightarrow>
     max_precision T < precision"
  by (cases T) (auto simp: decimal_backing_def split: if_splits)

lemma readColumnWithDecimalData_backing:
  assumes "chunked_type arrow_column = DECIMAL128 precision scale
      \<or> chunked_type arrow_column = DECIMAL256 precision scale"
    and "readColumnWithDecimalData cls arrow_column column_name = Inr c"
  shows "column_backing (column c) = Some (decimal_backing precision)"
    and "type c = DataTypeDecimal precision scale"
  using assms
  by (auto simp: readColumnWithDecimalData_def readColumnWithDecimalDataImpl_def
      split: sum.splits)

text \<open>
  Claim C2 (decimal width selection). For a precision that some decimal type has, the
  backing type that \<open>readColumnWithDecimalData\<close> picks can hold the precision, and
  every narrower backing type cannot: it is the narrowest that can. A converted decimal
  column has that backing type. Precisions 5, 10, 30 and 50 give the 32-bit, the 64-bit,
  the 128-bit and the 256-bit type.
\<close>

theorem decimal_width_selection:
  "(precision \<le> max_precision Decimal256 \<longrightarrow>
      precision \<le> max_precision (decimal_backing precision)
      \<and> (\<forall>T. T \<noteq> DateTime64 \<and> decimal_bits T < decimal_bits (decimal_backing precision)
            \<longrightarrow> max_precision T < precision))
   \<and> ((chunked_type arrow_column = DECIMAL128 precision scale
          \<or> chunked_type arrow_column = DECIMAL256 precision scale)
        \<and> readColumnWithDecimalData cls arrow_column column_name = Inr c
      \<longrightarrow> column_backing (column c) = Some (decimal_backing precision))
   \<and> decimal_backing 5 = Decimal32 \<and> decimal_backing 10 = Decimal64
   \<and> decimal_backing 30 = Decimal128 \<and> decimal_backing 50 = Decimal256"
proof (intro conjI impI allI)
  assume "precision \<le> max_precision Decimal256"
  then show "precision \<le> max_precision (decimal_backing precision)"
    by (rule decimal_backing_covers)
next
  fix T
  assume "T \<noteq> DateTime64 \<and> decimal_bits T < decimal_bits (decimal_backing precision)"
  then show "max_precision T < precision"
    by (simp add: decimal_backing_narrowest)
next
  assume "(chunked_type arrow_column = DECIMAL128 precision scale
          \<or> chunked_type arrow_column = DECIMAL256 precision scale)
        \<and> readColumnWithDecimalData cls arrow_column column_name = Inr c"
  then show "column_backing (column c) = Some (decimal_backing precision)"
    by (intro readColumnWithDecimalData_backing(1) [of arrow_column precision scale cls column_name]) simp_all
qed (simp_all add: decimal_backing_def)

theorem decimal_width_selection_witness:
  "(30::nat) \<le> max_precision Decimal256
   \<and> 30 \<le> max_precision (decimal_backing 30)
   \<and> max_precision Decimal64 < 30
   \<and> readColumnWithDecimalData Decimal128Array_class
        \<lparr>chunks = [Decimal128Array [(False, 12345), (True, 7)]], chunked_type = DECIMAL128 30 2\<rparr>
        ''price''
      = Inr \<lparr>column = ColumnDecimal Decimal128 [12345, 0], type = DataTypeDecimal 30 2,
             name = ''price''\<rparr>
   \<and> column_backing (ColumnDecimal Decimal128 [12345, 0]) = Some (decimal_backing 30)"
proof -
  let ?col = "\<lparr>chunks = [Decimal128Array [(False, 12345), (True, 7)]],
      chunked_type = DECIMAL128 30 2\<rparr>"
  let ?c = "\<lparr>column = ColumnDecimal Decimal128 [12345, 0], type = DataTypeDecimal 30 2,
             name = ''price''\<rparr>"
  note inst = decimal_width_selection [of 30 ?col 2 Decimal128Array_class "''price''" ?c]
  have 1: "readColumnWithDecimalData Decimal128Array_class ?col ''price'' = Inr ?c"
    by (simp add: readColumnWithDecimalData_def readColumnWithDecimalDataImpl_def
        decimal_backing_def map_chunks_def decimal_chunk_def signed_cell_def)
  have 2: "(30::nat) \<le> max_precision Decimal256" by simp
  from inst 2 have 3: "30 \<le> max_precision (decimal_backing 30)" by blast
  have "Decimal64 \<noteq> DateTime64 \<and> decimal_bits Decimal64 < decimal_bits (decimal_backing 30)"
    by (simp add: decimal_backing_def)
  with inst 2 have 4: "max_precision Decimal64 < 30" by blast
  from inst 1 have 5: "column_backing (column ?c) = Some (decimal_backing 30)"
    by simp
  from 1 2 3 4 5 show ?thesis by simp
qed

subsection \<open>Date bound\<close>

lemma date32_chunk_ok:
  "\<forall>v \<in> set (date32_values slots). v \<le> DATE_LUT_MAX_EXTEND_DAY_NUM lib \<Longrightarrow>
     date32_chunk lib column_name (NumericArray slots) = Inr (date32_values slots)"
proof -
  assume "\<forall>v \<in> set (date32_values slots). v \<le> DATE_LUT_MAX_EXTEND_DAY_NUM lib"
  then have "find (\<lambda>p. DATE_LUT_MAX_EXTEND_DAY_NUM lib < p) (date32_values slots) = None"
    by (auto simp: find_None_iff)
  then show ?thesis
    by (simp add: date32_values_def)
qed

lemma date32_chunk_fail:
  "\<exists>v \<in> set (date32_values slots). DATE_LUT_MAX_EXTEND_DAY_NUM lib < v \<Longrightarrow>
     \<exists>p \<in> set (date32_values slots). DATE_LUT_MAX_EXTEND_DAY_NUM lib < p
       \<and> date32_chunk lib column_name (NumericArray slots)
           = Inl (VALUE_IS_OUT_OF_RANGE_OF_DATA_TYPE p column_name (DATE_LUT_MAX_DAY_NUM lib))"
proof -
  assume a: "\<exists>v \<in> set (date32_values slots). DATE_LUT_MAX_EXTEND_DAY_NUM lib < v"
  then obtain p where p: "find (\<lambda>p. DATE_LUT_MAX_EXTEND_DAY_NUM lib < p) (date32_values slots) = Some p"
    by (cases "find (\<lambda>p. DATE_LUT_MAX_EXTEND_DAY_NUM lib < p) (date32_values slots)")
      (auto simp: find_None_iff)
  then have "p \<in> set (date32_values slots)" "DATE_LUT_MAX_EXTEND_DAY_NUM lib < p"
    by (auto simp: find_Some_iff)
  with p show ?thesis
    by (intro bexI [of _ p]) (simp_all add: date32_values_def)
qed

lemma date32_all_ok:
  assumes "chunks arrow_column = map NumericArray slotss"
    and "\<forall>v \<in> set (concat (map date32_values slotss)). v \<le> DATE_LUT_MAX_EXTEND_DAY_NUM lib"
  shows "readColumnWithDate32Data lib arrow_column column_name =
     Inr \<lparr>column = ColumnVector Int32 (concat (map date32_values slotss)),
          type = DataTypeDate32, name = column_name\<rparr>"
proof -
  have "collect (date32_chunk lib column_name) (map NumericArray slotss)
      = Inr (map (\<lambda>c. case c of NumericArray slots \<Rightarrow> date32_values slots) (map NumericArray slotss))"
    using assms(2) by (intro collect_all_Inr) (auto simp del: date32_chunk.simps intro!: date32_chunk_ok)
  then show ?thesis
    using assms(1)
    by (simp add: readColumnWithDate32Data_def map_chunks_def comp_def)
qed

lemma date32_some_fail:
  assumes "chunks arrow_column = map NumericArray slotss"
    and "\<exists>v \<in> set (concat (map date32_values slotss)). DATE_LUT_MAX_EXTEND_DAY_NUM lib < v"
  shows "\<exists>p \<in> set (concat (map date32_values slotss)). DATE_LUT_MAX_EXTEND_DAY_NUM lib < p
     \<and> readColumnWithDate32Data lib arrow_column column_name =
         Inl (VALUE_IS_OUT_OF_RANGE_OF_DATA_TYPE p column_name (DATE_LUT_MAX_DAY_NUM lib))"
proof -
  define bad where
    "bad = (\<lambda>slots. \<exists>v \<in> set (date32_values slots). DATE_LUT_MAX_EXTEND_DAY_NUM lib < v)"
  from assms(2) have "\<exists>slots \<in> set slotss. bad slots"
    by (auto simp: bad_def)
  from split_list_first_prop [OF this] obtain pre slots post where
    split: "slotss = pre @ slots # post" and "bad slots" and "\<forall>s \<in> set pre. \<not> bad s"
    by blast
  then have bad: "\<exists>v \<in> set (date32_values slots). DATE_LUT_MAX_EXTEND_DAY_NUM lib < v"
    and good: "\<forall>s \<in> set pre. \<forall>v \<in> set (date32_values s). v \<le> DATE_LUT_MAX_EXTEND_DAY_NUM lib"
    by (auto simp: bad_def not_less)
  from date32_chunk_fail [OF bad, of column_name] obtain p where
    p: "p \<in> set (date32_values slots)" "DATE_LUT_MAX_EXTEND_DAY_NUM lib < p"
    "date32_chunk lib column_name (NumericArray slots)
       = Inl (VALUE_IS_OUT_OF_RANGE_OF_DATA_TYPE p column_name (DATE_LUT_MAX_DAY_NUM lib))"
    by auto
  have "\<forall>c \<in> set (map NumericArray pre). \<exists>y. date32_chunk lib column_name c = Inr y"
    using good date32_chunk_ok [of _ lib column_name] by (auto simp del: date32_chunk.simps)
  from collect_first_Inl [OF this p(3), of "map NumericArray post"]
  have "collect (date32_chunk lib column_name) (map NumericArray slotss)
      = Inl (VALUE_IS_OUT_OF_RANGE_OF_DATA_TYPE p column_name (DATE_LUT_MAX_DAY_NUM lib))"
    by (simp add: split)
  with assms(1) p(1,2) split show ?thesis
    by (intro bexI [of _ p]) (simp_all add: readColumnWithDate32Data_def map_chunks_def)
qed

text \<open>
  Claim C3 (date bound). A 32-bit date column whose day numbers are all at most
  \<open>DATE_LUT_MAX_EXTEND_DAY_NUM\<close> converts, and the internal column holds exactly the
  day numbers read: a value equal to the maximum passes, and nothing is clamped. If some
  day number is greater, the conversion throws \<open>VALUE_IS_OUT_OF_RANGE_OF_DATA_TYPE\<close>
  with such a value and the name of the column.
\<close>

theorem date32_bound:
  "chunks arrow_column = map NumericArray slotss \<longrightarrow>
     ((\<forall>v \<in> set (concat (map date32_values slotss)). v \<le> DATE_LUT_MAX_EXTEND_DAY_NUM lib) \<longrightarrow>
        readColumnWithDate32Data lib arrow_column column_name =
          Inr \<lparr>column = ColumnVector Int32 (concat (map date32_values slotss)),
               type = DataTypeDate32, name = column_name\<rparr>)
     \<and> ((\<exists>v \<in> set (concat (map date32_values slotss)). DATE_LUT_MAX_EXTEND_DAY_NUM lib < v) \<longrightarrow>
        (\<exists>p \<in> set (concat (map date32_values slotss)). DATE_LUT_MAX_EXTEND_DAY_NUM lib < p
          \<and> readColumnWithDate32Data lib arrow_column column_name =
              Inl (VALUE_IS_OUT_OF_RANGE_OF_DATA_TYPE p column_name (DATE_LUT_MAX_DAY_NUM lib))))"
  using date32_all_ok [of arrow_column slotss lib column_name]
    date32_some_fail [of arrow_column slotss lib column_name]
  by blast

theorem date32_bound_witness:
  "readColumnWithDate32Data example_lib
      \<lparr>chunks = [NumericArray [(False, 19000), (False, 120530)]], chunked_type = DATE32\<rparr> ''d''
     = Inr \<lparr>column = ColumnVector Int32 [19000, 120530], type = DataTypeDate32, name = ''d''\<rparr>
   \<and> readColumnWithDate32Data example_lib
      \<lparr>chunks = [NumericArray [(False, 19000), (False, 120531)]], chunked_type = DATE32\<rparr> ''d''
     = Inl (VALUE_IS_OUT_OF_RANGE_OF_DATA_TYPE 120531 ''d'' 65535)"
proof -
  let ?ok = "\<lparr>chunks = [NumericArray [(False, 19000), (False, 120530)]], chunked_type = DATE32\<rparr>"
  let ?bad = "\<lparr>chunks = [NumericArray [(False, 19000), (False, 120531)]], chunked_type = DATE32\<rparr>"
  have v: "date32_values [(False, 19000), (False, 120530)] = [19000, 120530]"
    "date32_values [(False, 19000), (False, 120531)] = [19000, 120531]"
    by (simp_all add: date32_values_def signed_cell_def)
  have 1: "readColumnWithDate32Data example_lib ?ok ''d''
     = Inr \<lparr>column = ColumnVector Int32 [19000, 120530], type = DataTypeDate32, name = ''d''\<rparr>"
    using date32_bound [of ?ok "[[(False, 19000), (False, 120530)]]" example_lib "''d''"]
    by (simp add: v example_lib_def)
  have "\<exists>p \<in> set [19000, 120531 :: int]. 120530 < p
          \<and> readColumnWithDate32Data example_lib ?bad ''d'' =
              Inl (VALUE_IS_OUT_OF_RANGE_OF_DATA_TYPE p ''d'' 65535)"
    using date32_bound [of ?bad "[[(False, 19000), (False, 120531)]]" example_lib "''d''"]
    by (simp add: v example_lib_def)
  then have 2: "readColumnWithDate32Data example_lib ?bad ''d''
      = Inl (VALUE_IS_OUT_OF_RANGE_OF_DATA_TYPE 120531 ''d'' 65535)"
    by simp
  from 1 2 show ?thesis by simp
qed

subsection \<open>Index dispatch\<close>

lemma FOR_ARROW_INDEXES_TYPES_eq:
  "FOR_ARROW_INDEXES_TYPES t =
     (case arrow_integer_bits t of None \<Rightarrow> None | Some n \<Rightarrow> unsigned_of_bits n)"
  by (cases t) simp_all

lemma numeric_all_ok:
  "collect (numeric_chunk T) (map NumericArray slotss)
     = Inr (map (map (\<lambda>slot. reinterpret T (snd slot))) slotss)"
  by (induction slotss) simp_all

text \<open>
  Claim C6 (index dispatch), as amended. Every integer index type of 8, 16, 32 or 64
  bits, signed or unsigned, is read as the unsigned internal type of the same width: the
  cells are reinterpreted, not widened. Any other index type makes
  \<open>readColumnWithIndexesData\<close> throw \<open>BAD_ARGUMENTS\<close> with the type.
\<close>

theorem index_dispatch:
  "FOR_ARROW_INDEXES_TYPES (chunked_type arrow_column) =
      (case arrow_integer_bits (chunked_type arrow_column) of
         None \<Rightarrow> None | Some n \<Rightarrow> unsigned_of_bits n)
   \<and> (arrow_integer_bits (chunked_type arrow_column) = None \<longrightarrow>
        readColumnWithIndexesData arrow_column = Inl (BAD_ARGUMENTS (chunked_type arrow_column)))
   \<and> (FOR_ARROW_INDEXES_TYPES (chunked_type arrow_column) = Some T
        \<and> chunks arrow_column = map NumericArray slotss \<longrightarrow>
        readColumnWithIndexesData arrow_column =
          Inr (ColumnVector T (concat (map (map (\<lambda>slot. reinterpret T (snd slot))) slotss))))"
proof (intro conjI impI)
  show "FOR_ARROW_INDEXES_TYPES (chunked_type arrow_column) =
      (case arrow_integer_bits (chunked_type arrow_column) of
         None \<Rightarrow> None | Some n \<Rightarrow> unsigned_of_bits n)"
    by (rule FOR_ARROW_INDEXES_TYPES_eq)
next
  assume "arrow_integer_bits (chunked_type arrow_column) = None"
  then show "readColumnWithIndexesData arrow_column = Inl (BAD_ARGUMENTS (chunked_type arrow_column))"
    by (simp add: readColumnWithIndexesData_def FOR_ARROW_INDEXES_TYPES_eq)
next
  assume "FOR_ARROW_INDEXES_TYPES (chunked_type arrow_column) = Some T
        \<and> chunks arrow_column = map NumericArray slotss"
  then show "readColumnWithIndexesData arrow_column =
          Inr (ColumnVector T (concat (map (map (\<lambda>slot. reinterpret T (snd slot))) slotss)))"
    by (simp add: readColumnWithIndexesData_def readColumnWithNumericData_def map_chunks_def
        numeric_all_ok)
qed

theorem index_dispatch_witness:
  "readColumnWithIndexesData \<lparr>chunks = [NumericArray [(False, 3)]], chunked_type = STRING\<rparr>
     = Inl (BAD_ARGUMENTS STRING)
   \<and> readColumnWithIndexesData
        \<lparr>chunks = [NumericArray [(False, 3), (False, - 1)]], chunked_type = INT16\<rparr>
     = Inr (ColumnVector UInt16 [3, 65535])"
proof -
  let ?s = "\<lparr>chunks = [NumericArray [(False, 3)]], chunked_type = STRING\<rparr>"
  let ?i = "\<lparr>chunks = [NumericArray [(False, 3), (False, - 1)]], chunked_type = INT16\<rparr>"
  have 1: "readColumnWithIndexesData ?s = Inl (BAD_ARGUMENTS STRING)"
    using index_dispatch [of ?s UInt8 "[]"] by simp
  have 2: "readColumnWithIndexesData ?i = Inr (ColumnVector UInt16 [3, 65535])"
    using index_dispatch [of ?i UInt16 "[[(False, 3), (False, - 1)]]"]
    by (simp add: unsigned_cell_def)
  from 1 2 show ?thesis by simp
qed

text \<open>
  The claim as stated has a signed index widen to the next unsigned width. A signed
  8-bit index column is read as \<open>UInt8\<close>, not as the 16-bit type: -1 becomes 255.
\<close>

theorem index_dispatch_counterexample:
  "FOR_ARROW_INDEXES_TYPES INT8 \<noteq> unsigned_of_bits 16
   \<and> readColumnWithIndexesData \<lparr>chunks = [NumericArray [(False, - 1)]], chunked_type = INT8\<rparr>
       = Inr (ColumnVector UInt8 [255])"
  by (simp add: readColumnWithIndexesData_def readColumnWithNumericData_def map_chunks_def
      unsigned_cell_def)

section \<open>Conversion session: properties\<close>

subsection \<open>Empty input\<close>

text \<open>
  Claim C9 (empty input), as amended. \<open>arrowColumnsToCHChunk\<close> called with no column
  throws \<open>INCORRECT_NUMBER_OF_COLUMNS\<close> and leaves the session as it was.
  \<open>arrowTableToCHChunk\<close> calls it only for a table that has a column: on a table
  without columns it returns without an exception and \<open>res\<close> is what it was.
\<close>

theorem empty_input:
  "arrowColumnsToCHChunk lib this [] schema = (Inl INCORRECT_NUMBER_OF_COLUMNS, this)
   \<and> arrowTableToCHChunk lib this res [] = (Inr res, this)"
  by (simp add: arrowColumnsToCHChunk_def arrowTableToCHChunk_def)

text \<open>
  The claim as stated has the table-to-batch conversion fail on zero columns. On the
  empty table \<open>arrowTableToCHChunk\<close> returns normally, with the chunk it was given.
\<close>

theorem empty_input_counterexample:
  "arrowTableToCHChunk example_lib (example_session [] False)
      \<lparr>columns = [ColumnVector UInt8 [1]], num_rows = 1\<rparr> []
     = (Inr \<lparr>columns = [ColumnVector UInt8 [1]], num_rows = 1\<rparr>, example_session [] False)"
  by (simp add: arrowTableToCHChunk_def)

subsection \<open>The missing-column query\<close>

lemma missing_loop_strict:
  "\<not> allow_missing_columns this \<Longrightarrow>
     missing_loop lib this block cs i acc =
       (case find (is_missing lib this block) cs of
          Some c \<Rightarrow> Inl (THERE_IS_NO_COLUMN (name c))
        | None \<Rightarrow> Inr acc)"
  by (induction cs arbitrary: i acc) simp_all

lemma missing_loop_lenient:
  "allow_missing_columns this \<Longrightarrow>
     missing_loop lib this block cs i acc =
       Inr (acc @ map (\<lambda>k. i + k) (filter (\<lambda>k. is_missing lib this block (cs ! k)) [0..<length cs]))"
proof (induction cs arbitrary: i acc)
  case Nil
  then show ?case by simp
next
  case (Cons c cs)
  have shift: "filter (\<lambda>k. is_missing lib this block ((c # cs) ! k)) [0..<Suc (length cs)]
      = (if is_missing lib this block c then [0] else [])
        @ map Suc (filter (\<lambda>k. is_missing lib this block (cs ! k)) [0..<length cs])"
    by (simp add: upt_conv_Cons map_Suc_upt [symmetric] filter_map comp_def del: upt_Suc)
  show ?case
    using Cons.prems by (simp add: Cons.IH shift comp_def del: upt_Suc)
qed

lemma example_header:
  "arrowSchemaToCHHeader example_lib [Field ''a'' INT32 False] ''Parquet'' = Inr [int32_column ''a'']"
  by (simp add: arrowSchemaToCHHeader_def example_lib_def readColumnFromArrowColumn.simps readFlatColumn_def
      readColumnWithNumericData_def map_chunks_def int32_column_def)

text \<open>
  Claim C10 (the missing-column query). Once the header has been derived from the
  schema, \<open>getMissingColumns\<close> under the strict policy throws
  \<open>THERE_IS_NO_COLUMN\<close> for the first header column that has neither an exact nor a
  nested match in the derived header, and answers the empty list if there is none; it
  never reports a column. Under the lenient policy it answers the positions of all such
  header columns, in order.
\<close>

theorem missing_columns_query:
  "arrowSchemaToCHHeader lib schema (format_name this) = Inr block_from_arrow \<longrightarrow>
     (\<not> allow_missing_columns this \<longrightarrow>
        getMissingColumns lib this schema =
          (case find (is_missing lib this block_from_arrow) (header this) of
             Some c \<Rightarrow> Inl (THERE_IS_NO_COLUMN (name c))
           | None \<Rightarrow> Inr []))
     \<and> (allow_missing_columns this \<longrightarrow>
        getMissingColumns lib this schema =
          Inr (filter (\<lambda>i. is_missing lib this block_from_arrow (header this ! i))
                 [0..<length (header this)]))"
  by (simp add: getMissingColumns_def missing_loop_strict missing_loop_lenient)

theorem missing_columns_query_witness:
  "getMissingColumns example_lib (example_session [int32_column ''a'', int32_column ''b''] False)
      [Field ''a'' INT32 False] = Inl (THERE_IS_NO_COLUMN ''b'')
   \<and> getMissingColumns example_lib (example_session [int32_column ''a'', int32_column ''b''] True)
      [Field ''a'' INT32 False] = Inr [1]"
proof -
  let ?h = "[int32_column ''a'', int32_column ''b'']"
  let ?schema = "[Field ''a'' INT32 False]"
  have m: "\<not> is_missing example_lib (example_session ?h allow) [int32_column ''a''] (int32_column ''a'')"
    "is_missing example_lib (example_session ?h allow) [int32_column ''a''] (int32_column ''b'')"
    for allow
    by (simp_all add: is_missing_def has_def int32_column_def example_session_def)
  have h: "arrowSchemaToCHHeader example_lib ?schema (format_name (example_session ?h allow))
      = Inr [int32_column ''a'']" for allow
    by (simp add: example_session_def example_header)
  have 1: "getMissingColumns example_lib (example_session ?h False) ?schema
      = Inl (THERE_IS_NO_COLUMN ''b'')"
    using missing_columns_query [of example_lib ?schema "example_session ?h False" "[int32_column ''a'']"]
      h [of False] m [of False]
    by (simp add: example_session_def int32_column_def)
  have 2: "getMissingColumns example_lib (example_session ?h True) ?schema = Inr [1]"
    using missing_columns_query [of example_lib ?schema "example_session ?h True" "[int32_column ''a'']"]
      h [of True] m [of True]
    by (simp add: example_session_def upt_conv_Cons)
  from 1 2 show ?thesis by simp
qed

section \<open>Columnar format converter: properties of readColumnFromArrowColumn\<close>

subsection \<open>The equations of the cases\<close>

lemma rc_nullable:
  "nullable f \<Longrightarrow> readColumnFromArrowColumn lib f c fmt dv r =
     (case readColumnFromArrowColumn lib (WithNullable f False) c fmt dv r of
        (Inl e, dv1) \<Rightarrow> (Inl e, dv1)
      | (Inr nested_column, dv1) \<Rightarrow> (Inr (make_nullable nested_column c (field_name f)), dv1))"
  by (subst readColumnFromArrowColumn.simps) simp

lemma rc_no_chunks:
  "\<not> nullable f \<Longrightarrow> chunks c = [] \<Longrightarrow>
     readColumnFromArrowColumn lib f c fmt dv r = (Inl Undefined, dv)"
  by (subst readColumnFromArrowColumn.simps) simp

lemma rc_CHStringArray:
  "\<not> nullable f \<Longrightarrow> chunks c = chunk0 # rest \<Longrightarrow> as_CHStringArray chunk0 = Some ch_column \<Longrightarrow>
     readColumnFromArrowColumn lib f c fmt dv r = (Inr (ch_column\<lparr>name := field_name f\<rparr>), dv)"
  by (subst readColumnFromArrowColumn.simps) simp

lemma rc_MAP:
  "plain f c \<Longrightarrow> chunked_type c = MAP child \<Longrightarrow>
     readColumnFromArrowColumn lib f c fmt dv r =
       (case nested_field_and_column f c of
          Inl e \<Rightarrow> (Inl e, dv)
        | Inr (nf, nc) \<Rightarrow>
            (case readColumnFromArrowColumn lib nf nc fmt dv r of
               (Inl e, dv1) \<Rightarrow> (Inl e, dv1)
             | (Inr nested_column, dv1) \<Rightarrow> (make_map nested_column c (field_name f), dv1)))"
  by (subst readColumnFromArrowColumn.simps) (auto simp: plain_def)

lemma rc_LIST:
  "plain f c \<Longrightarrow> chunked_type c = LIST child \<Longrightarrow>
     readColumnFromArrowColumn lib f c fmt dv r =
       (case nested_field_and_column f c of
          Inl e \<Rightarrow> (Inl e, dv)
        | Inr (nf, nc) \<Rightarrow>
            (case readColumnFromArrowColumn lib nf nc fmt dv r of
               (Inl e, dv1) \<Rightarrow> (Inl e, dv1)
             | (Inr nested_column, dv1) \<Rightarrow> (make_array nested_column c (field_name f), dv1)))"
  by (subst readColumnFromArrowColumn.simps) (auto simp: plain_def)

lemma rc_STRUCT:
  "plain f c \<Longrightarrow> chunked_type c = STRUCT children \<Longrightarrow>
     readColumnFromArrowColumn lib f c fmt dv r =
       (case struct_fields_and_columns f children c of
          Inl e \<Rightarrow> (Inl e, dv)
        | Inr (fs, cols) \<Rightarrow>
            (case readStructElements lib fs cols fmt dv r of
               (Inl e, dv1) \<Rightarrow> (Inl e, dv1)
             | (Inr elements, dv1) \<Rightarrow> (Inr (make_tuple elements (field_name f)), dv1)))"
  by (subst readColumnFromArrowColumn.simps) (auto simp: plain_def)

lemma rc_DICTIONARY_cached:
  "plain f c \<Longrightarrow> chunked_type c = DICTIONARY index_type value_type \<Longrightarrow>
   entries dv (field_name f) \<noteq> None \<Longrightarrow>
     readColumnFromArrowColumn lib f c fmt dv r =
       (pair_with_indexes (entries dv (field_name f)) c index_type (field_name f), dv)"
  by (subst readColumnFromArrowColumn.simps) (auto simp: plain_def)

lemma rc_DICTIONARY_first:
  "plain f c \<Longrightarrow> chunked_type c = DICTIONARY index_type value_type \<Longrightarrow>
   entries dv (field_name f) = None \<Longrightarrow>
     readColumnFromArrowColumn lib f c fmt dv r =
       (case dictionary_field_and_column f c value_type of
          Inl e \<Rightarrow> (Inl e, dv)
        | Inr (df, dc) \<Rightarrow>
            (case readColumnFromArrowColumn lib df dc fmt dv r of
               (Inl e, dv1) \<Rightarrow> (Inl e, dv1)
             | (Inr dict_column, dv1) \<Rightarrow>
                 (pair_with_indexes
                    (entries (materialise (field_name f) dict_column dv1) (field_name f))
                    c index_type (field_name f),
                  materialise (field_name f) dict_column dv1)))"
  by (subst readColumnFromArrowColumn.simps)
    (auto simp: plain_def split: sum.splits prod.splits)

lemma rc_flat:
  "plain f c \<Longrightarrow> \<not> is_nested (chunked_type c) \<Longrightarrow>
     readColumnFromArrowColumn lib f c fmt dv r =
       (readFlatColumn lib c (field_name f) fmt r, dv)"
  by (subst readColumnFromArrowColumn.simps)
    (cases "chunked_type c"; auto simp: plain_def)

text \<open>The cases of the converter.\<close>

lemma rc_cases [case_names nullable no_chunks CHStringArray MAP LIST STRUCT DICTIONARY flat]:
  obtains "nullable f"
  | "\<not> nullable f" "chunks c = []"
  | chunk0 rest ch_column where "\<not> nullable f" "chunks c = chunk0 # rest"
      "as_CHStringArray chunk0 = Some ch_column"
  | child where "plain f c" "chunked_type c = MAP child"
  | child where "plain f c" "chunked_type c = LIST child"
  | children where "plain f c" "chunked_type c = STRUCT children"
  | index_type value_type where "plain f c" "chunked_type c = DICTIONARY index_type value_type"
  | "plain f c" "\<not> is_nested (chunked_type c)"
proof (cases "nullable f")
  case True
  then show ?thesis by (rule that(1))
next
  case not_nullable: False
  show ?thesis
  proof (cases "chunks c")
    case Nil
    with not_nullable show ?thesis by (rule that(2))
  next
    case (Cons chunk0 rest)
    show ?thesis
    proof (cases "as_CHStringArray chunk0")
      case (Some ch_column)
      with not_nullable Cons show ?thesis by (rule that(3))
    next
      case None
      with not_nullable Cons have p: "plain f c" by (simp add: plain_def)
      show ?thesis
      proof (cases "is_nested (chunked_type c)")
        case False
        with p show ?thesis by (rule that(8))
      next
        case True
        then consider child where "chunked_type c = MAP child"
          | child where "chunked_type c = LIST child"
          | children where "chunked_type c = STRUCT children"
          | index_type value_type where "chunked_type c = DICTIONARY index_type value_type"
          by (cases "chunked_type c") simp_all
        then show ?thesis
          using p that(4-7) by cases blast+
      qed
    qed
  qed
qed

lemma depth_WithNullable: "nullable f \<Longrightarrow> depth (WithNullable f False) < depth f"
  by (simp add: depth_def field_type_WithNullable nullable_WithNullable)

lemma depth_nested: "nested_field_and_column f c = Inr (nf, nc) \<Longrightarrow> depth nf < depth f"
  by (drule nested_field_smaller) (simp add: depth_def)

lemma depth_struct:
  assumes "struct_fields_and_columns f children c = Inr (fs, cols)" and "g \<in> set fs"
  shows "depth g < depth f"
proof -
  from assms(2) have "Suc (size (field_type g)) \<le> size_list (\<lambda>f. Suc (size (field_type f))) fs"
    by (induction fs) auto
  with struct_fields_smaller [OF assms(1)] show ?thesis
    by (simp add: depth_def)
qed

lemma depth_dictionary: "dictionary_field_and_column f c vt = Inr (df, dc) \<Longrightarrow> depth df < depth f"
  by (drule dictionary_field_smaller) (simp add: depth_def)

lemma dict_free_field_eq: "dict_free_field f = dict_free (field_type f)"
  by (cases f) simp

lemma dict_free_field0: "dict_free t \<Longrightarrow> field0 t = Some f \<Longrightarrow> dict_free (field_type f)"
  by (induction t rule: field0.induct) (auto simp: dict_free_field_eq)

lemma dict_free_nested:
  "dict_free (field_type f) \<Longrightarrow> nested_field_and_column f c = Inr (nf, nc) \<Longrightarrow>
     dict_free (field_type nf)"
  by (auto simp: nested_field_and_column_def split: option.splits sum.splits
      dest: dict_free_field0)

lemma dict_free_struct:
  "dict_free (field_type f) \<Longrightarrow> struct_fields_and_columns f children c = Inr (fs, cols) \<Longrightarrow>
     \<forall>g \<in> set fs. dict_free (field_type g)"
  by (auto simp: struct_fields_and_columns_def list_all_iff dict_free_field_eq
      split: arrow_type.splits sum.splits)

lemma dictionary_field_Inr:
  "dictionary_field_and_column f c vt = Inr (df, dc) \<Longrightarrow>
     \<exists>it. field_type f = DICTIONARY it (field_type df)"
  by (auto simp: dictionary_field_and_column_def split: arrow_type.splits sum.splits)

text \<open>The loop over the fields of a struct leaves the cache alone if every call does.\<close>

lemma struct_elements_unchanged:
  "(\<And>g c dv. g \<in> set fs \<Longrightarrow> snd (readColumnFromArrowColumn lib g c fmt dv r) = dv) \<Longrightarrow>
     snd (readStructElements lib fs cols fmt dv r) = dv"
proof (induction fs arbitrary: cols dv)
  case Nil
  then show ?case by simp
next
  case (Cons g fs)
  show ?case
  proof (cases cols)
    case Nil
    then show ?thesis by simp
  next
    case (Cons col rest)
    have g: "snd (readColumnFromArrowColumn lib g col fmt dv r) = dv"
      by (rule Cons.prems) simp
    have fs: "snd (readStructElements lib fs rest fmt dv r) = dv"
      by (rule Cons.IH) (simp add: Cons.prems)
    from g fs show ?thesis
      by (auto simp: Cons split: prod.splits sum.splits)
  qed
qed

text \<open>Converting a column of a type without dictionaries leaves the cache as it is.\<close>

lemma cache_unchanged:
  "dict_free (field_type f) \<Longrightarrow> snd (readColumnFromArrowColumn lib f c fmt dv r) = dv"
proof (induction "depth f" arbitrary: f c dv rule: less_induct)
  case less
  note IH = less.hyps and free = less.prems
  show ?case
  proof (cases rule: rc_cases [where f = f and c = c])
    case nullable
    from free have "snd (readColumnFromArrowColumn lib (WithNullable f False) c fmt dv r) = dv"
      by (intro IH depth_WithNullable nullable) (simp add: field_type_WithNullable)
    then show ?thesis
      by (auto simp: rc_nullable [OF nullable] split: prod.splits sum.splits)
  next
    case no_chunks
    then show ?thesis by (simp add: rc_no_chunks)
  next
    case (CHStringArray chunk0 rest ch_column)
    then show ?thesis by (simp add: rc_CHStringArray)
  next
    case (MAP child)
    have "snd (readColumnFromArrowColumn lib nf nc fmt dv r) = dv"
      if "nested_field_and_column f c = Inr (nf, nc)" for nf nc
      using that free by (intro IH depth_nested [OF that] dict_free_nested [OF _ that])
    then show ?thesis
      by (auto simp: rc_MAP [OF MAP] split: prod.splits sum.splits)
  next
    case (LIST child)
    have "snd (readColumnFromArrowColumn lib nf nc fmt dv r) = dv"
      if "nested_field_and_column f c = Inr (nf, nc)" for nf nc
      using that free by (intro IH depth_nested [OF that] dict_free_nested [OF _ that])
    then show ?thesis
      by (auto simp: rc_LIST [OF LIST] split: prod.splits sum.splits)
  next
    case (STRUCT children)
    have "snd (readStructElements lib fs cols fmt dv r) = dv"
      if "struct_fields_and_columns f children c = Inr (fs, cols)" for fs cols
    proof (rule struct_elements_unchanged)
      fix g c' dv'
      assume "g \<in> set fs"
      with that free show "snd (readColumnFromArrowColumn lib g c' fmt dv' r) = dv'"
        by (intro IH depth_struct [OF that]) (auto dest: dict_free_struct)
    qed
    then show ?thesis
      by (auto simp: rc_STRUCT [OF STRUCT] split: prod.splits sum.splits)
  next
    case (DICTIONARY index_type value_type)
    show ?thesis
    proof (cases "entries dv (field_name f) = None")
      case True
      from free have "dictionary_field_and_column f c value_type \<noteq> Inr (df, dc)" for df dc
        by (auto dest: dictionary_field_Inr)
      then show ?thesis
        by (auto simp: rc_DICTIONARY_first [OF DICTIONARY True] split: prod.splits sum.splits)
    next
      case False
      then show ?thesis by (simp add: rc_DICTIONARY_cached [OF DICTIONARY])
    qed
  next
    case flat
    then show ?thesis by (simp add: rc_flat)
  qed
qed

text \<open>An entry of the cache, once there, stays what it is.\<close>

lemma struct_elements_stable:
  assumes "\<And>g c dv. g \<in> set fs \<Longrightarrow> entries dv n = Some d \<Longrightarrow>
      entries (snd (readColumnFromArrowColumn lib g c fmt dv r)) n = Some d"
    and "entries dv n = Some d"
  shows "entries (snd (readStructElements lib fs cols fmt dv r)) n = Some d"
  using assms
proof (induction fs arbitrary: cols dv)
  case Nil
  then show ?case by simp
next
  case (Cons g fs)
  show ?case
  proof (cases cols)
    case Nil
    with Cons.prems(2) show ?thesis by simp
  next
    case (Cons col rest)
    obtain res dv1 where g: "readColumnFromArrowColumn lib g col fmt dv r = (res, dv1)"
      by (cases "readColumnFromArrowColumn lib g col fmt dv r")
    from Cons.prems(1) [of g dv col] Cons.prems(2) g have dv1: "entries dv1 n = Some d"
      by simp
    have "entries (snd (readStructElements lib fs rest fmt dv1 r)) n = Some d"
      by (rule Cons.IH [OF _ dv1]) (simp add: Cons.prems(1))
    with g dv1 show ?thesis
      by (auto simp: Cons split: prod.splits sum.splits)
  qed
qed

lemma cache_stable:
  "entries dv n = Some d \<Longrightarrow>
     entries (snd (readColumnFromArrowColumn lib f c fmt dv r)) n = Some d"
proof (induction "depth f" arbitrary: f c dv rule: less_induct)
  case less
  note IH = less.hyps and there = less.prems
  show ?case
  proof (cases rule: rc_cases [where f = f and c = c])
    case nullable
    from there have "entries (snd (readColumnFromArrowColumn lib (WithNullable f False) c fmt dv r)) n
        = Some d"
      by (intro IH depth_WithNullable nullable)
    then show ?thesis
      by (auto simp: rc_nullable [OF nullable] split: prod.splits sum.splits)
  next
    case no_chunks
    with there show ?thesis by (simp add: rc_no_chunks)
  next
    case (CHStringArray chunk0 rest ch_column)
    with there show ?thesis by (simp add: rc_CHStringArray)
  next
    case (MAP child)
    have "entries (snd (readColumnFromArrowColumn lib nf nc fmt dv r)) n = Some d"
      if "nested_field_and_column f c = Inr (nf, nc)" for nf nc
      using there by (intro IH depth_nested [OF that])
    with there show ?thesis
      by (auto simp: rc_MAP [OF MAP] split: prod.splits sum.splits)
  next
    case (LIST child)
    have "entries (snd (readColumnFromArrowColumn lib nf nc fmt dv r)) n = Some d"
      if "nested_field_and_column f c = Inr (nf, nc)" for nf nc
      using there by (intro IH depth_nested [OF that])
    with there show ?thesis
      by (auto simp: rc_LIST [OF LIST] split: prod.splits sum.splits)
  next
    case (STRUCT children)
    have "entries (snd (readStructElements lib fs cols fmt dv r)) n = Some d"
      if "struct_fields_and_columns f children c = Inr (fs, cols)" for fs cols
    proof (rule struct_elements_stable [OF _ there])
      fix g c' and dv' :: dictionary_cache
      assume "g \<in> set fs" and "entries dv' n = Some d"
      then show "entries (snd (readColumnFromArrowColumn lib g c' fmt dv' r)) n = Some d"
        by (intro IH depth_struct [OF that])
    qed
    with there show ?thesis
      by (auto simp: rc_STRUCT [OF STRUCT] split: prod.splits sum.splits)
  next
    case (DICTIONARY index_type value_type)
    show ?thesis
    proof (cases "entries dv (field_name f) = None")
      case True
      with there have other: "field_name f \<noteq> n" by auto
      have "entries (snd (readColumnFromArrowColumn lib df dc fmt dv r)) n = Some d"
        if "dictionary_field_and_column f c value_type = Inr (df, dc)" for df dc
        using there by (intro IH depth_dictionary [OF that])
      with there other show ?thesis
        by (auto simp: rc_DICTIONARY_first [OF DICTIONARY True] materialise_def
            split: prod.splits sum.splits)
    next
      case False
      with there show ?thesis by (simp add: rc_DICTIONARY_cached [OF DICTIONARY])
    qed
  next
    case flat
    with there show ?thesis by (simp add: rc_flat)
  qed
qed

lemma pair_with_indexes_Inr:
  assumes "pair_with_indexes cached c index_type n = Inr x"
  obtains d ic indexes where "cached = Some d"
    and "arrow_indexes_column c index_type = Inr ic"
    and "readColumnWithIndexesData ic = Inr indexes"
    and "x = \<lparr>column = ColumnLowCardinality (column d) indexes,
               type = DataTypeLowCardinality (type d), name = n\<rparr>"
  using assms
  by (auto simp: pair_with_indexes_def arrow_indexes_column_def
      split: option.splits sum.splits)

text \<open>
  After a successful conversion of a dictionary-encoded column its name is in the cache,
  and the result pairs the cached entry with the converted indexes.
\<close>

lemma dictionary_result:
  assumes "plain f c" and "chunked_type c = DICTIONARY index_type value_type"
    and "readColumnFromArrowColumn lib f c fmt dv r = (Inr x, dv1)"
  shows "\<exists>d. entries dv1 (field_name f) = Some d
     \<and> pair_with_indexes (Some d) c index_type (field_name f) = Inr x"
proof (cases "entries dv (field_name f) = None")
  case False
  with assms(3) show ?thesis
    by (auto simp: rc_DICTIONARY_cached [OF assms(1,2) False] pair_with_indexes_def)
next
  case True
  from assms(3) obtain df dc dict_column dv0 where
    "dv1 = materialise (field_name f) dict_column dv0"
    "pair_with_indexes (entries dv1 (field_name f)) c index_type (field_name f) = Inr x"
    by (auto simp: rc_DICTIONARY_first [OF assms(1,2) True] split: sum.splits prod.splits)
  then show ?thesis
    by (auto simp: materialise_def)
qed

lemma first_materialisation:
  assumes "plain f c" and "chunked_type c = DICTIONARY index_type value_type"
    and "entries dv (field_name f) = None"
    and "readColumnFromArrowColumn lib f c fmt dv r = (Inr x, dv1)"
    and "dict_free value_type" and "field_type f = chunked_type c"
  shows "materialised dv1 = Suc (materialised dv)"
    and "\<exists>payload. dictionary_of_column (column x) = Some (ColumnUnique (materialised dv) payload)"
proof -
  from assms(4) obtain df dc dict_column dv0 where
    d: "dictionary_field_and_column f c value_type = Inr (df, dc)"
    and r: "readColumnFromArrowColumn lib df dc fmt dv r = (Inr dict_column, dv0)"
    and dv1: "dv1 = materialise (field_name f) dict_column dv0"
    and x: "pair_with_indexes (entries dv1 (field_name f)) c index_type (field_name f) = Inr x"
    by (auto simp: rc_DICTIONARY_first [OF assms(1,2,3)] split: sum.splits prod.splits)
  from dictionary_field_Inr [OF d] assms(2,5,6) have "dict_free (field_type df)"
    by auto
  from cache_unchanged [OF this, of lib dc fmt dv r] r have "dv0 = dv" by simp
  with dv1 show "materialised dv1 = Suc (materialised dv)"
    by (simp add: materialise_def)
  from x dv1 \<open>dv0 = dv\<close>
  show "\<exists>payload. dictionary_of_column (column x) = Some (ColumnUnique (materialised dv) payload)"
    by (auto simp: materialise_def elim!: pair_with_indexes_Inr)
qed

lemma cache_after_stable:
  "entries dv n = Some d \<Longrightarrow> entries (cache_after lib fmt between dv) n = Some d"
  by (induction between arbitrary: dv) (auto simp: cache_stable)

lemma second_encounter:
  assumes "plain f1 c1" and "chunked_type c1 = DICTIONARY index_type1 value_type1"
    and "plain f2 c2" and "chunked_type c2 = DICTIONARY index_type2 value_type2"
    and "field_name f2 = field_name f1"
    and "readColumnFromArrowColumn lib f1 c1 fmt dv r1 = (Inr x1, dv1)"
    and "readColumnFromArrowColumn lib f2 c2 fmt (cache_after lib fmt between dv1) r2 = (res, dv2)"
  shows "dv2 = cache_after lib fmt between dv1"
    and "res = Inr x2 \<Longrightarrow>
      dictionary_of_column (column x2) = dictionary_of_column (column x1)
      \<and> dictionary_of_column (column x1) \<noteq> None
      \<and> (\<exists>ic indexes. arrow_indexes_column c2 index_type2 = Inr ic
            \<and> readColumnWithIndexesData ic = Inr indexes
            \<and> indexes_of_column (column x2) = Some indexes)"
proof -
  let ?dv = "cache_after lib fmt between dv1"
  from dictionary_result [OF assms(1,2,6)] obtain d where
    d: "entries dv1 (field_name f1) = Some d"
    and x1: "pair_with_indexes (Some d) c1 index_type1 (field_name f1) = Inr x1"
    by auto
  from cache_after_stable [OF d] have d': "entries ?dv (field_name f1) = Some d" .
  with assms(5) have cached: "entries ?dv (field_name f2) \<noteq> None" by simp
  from assms(7) have res: "res = pair_with_indexes (Some d) c2 index_type2 (field_name f2)"
    and dv2: "dv2 = ?dv"
    using d' assms(5) by (simp_all add: rc_DICTIONARY_cached [OF assms(3,4) cached])
  show "dv2 = ?dv" by (rule dv2)
  assume "res = Inr x2"
  with res have x2: "pair_with_indexes (Some d) c2 index_type2 (field_name f2) = Inr x2"
    by simp
  from x1 x2 show "dictionary_of_column (column x2) = dictionary_of_column (column x1)
      \<and> dictionary_of_column (column x1) \<noteq> None
      \<and> (\<exists>ic indexes. arrow_indexes_column c2 index_type2 = Inr ic
            \<and> readColumnWithIndexesData ic = Inr indexes
            \<and> indexes_of_column (column x2) = Some indexes)"
    by (auto elim!: pair_with_indexes_Inr)
qed

text \<open>
  Claim C5 (dictionary sharing). Two dictionary-encoded columns with the same column name
  are converted in one session, with any conversions in between. If the first conversion
  succeeds, the second one leaves the cache as it found it, and if it succeeds too, the
  dictionary of its result is the dictionary of the first result, the same
  \<open>ColumnUnique\<close> object by address, while its indexes are what
  \<open>readColumnWithIndexesData\<close> makes of its own index arrays. If the name was not in
  the cache before the first conversion and no dictionary type occurs in the value type,
  the first conversion builds exactly one \<open>ColumnUnique\<close>, the one of its result.
\<close>

theorem dictionary_sharing:
  "plain f1 c1 \<and> chunked_type c1 = DICTIONARY index_type1 value_type1
   \<and> plain f2 c2 \<and> chunked_type c2 = DICTIONARY index_type2 value_type2
   \<and> field_name f2 = field_name f1
   \<and> readColumnFromArrowColumn lib f1 c1 fmt dv r1 = (Inr x1, dv1)
   \<and> readColumnFromArrowColumn lib f2 c2 fmt (cache_after lib fmt between dv1) r2 = (res, dv2)
   \<longrightarrow> dv2 = cache_after lib fmt between dv1
     \<and> (res = Inr x2 \<longrightarrow>
          dictionary_of_column (column x2) = dictionary_of_column (column x1)
          \<and> dictionary_of_column (column x1) \<noteq> None
          \<and> (\<exists>ic indexes. arrow_indexes_column c2 index_type2 = Inr ic
                \<and> readColumnWithIndexesData ic = Inr indexes
                \<and> indexes_of_column (column x2) = Some indexes))
     \<and> (entries dv (field_name f1) = None \<and> dict_free value_type1
          \<and> field_type f1 = chunked_type c1 \<longrightarrow>
          materialised dv1 = Suc (materialised dv)
          \<and> (\<exists>payload. dictionary_of_column (column x1)
                = Some (ColumnUnique (materialised dv) payload)))"
proof (intro impI)
  assume a: "plain f1 c1 \<and> chunked_type c1 = DICTIONARY index_type1 value_type1
   \<and> plain f2 c2 \<and> chunked_type c2 = DICTIONARY index_type2 value_type2
   \<and> field_name f2 = field_name f1
   \<and> readColumnFromArrowColumn lib f1 c1 fmt dv r1 = (Inr x1, dv1)
   \<and> readColumnFromArrowColumn lib f2 c2 fmt (cache_after lib fmt between dv1) r2 = (res, dv2)"
  then have p1: "plain f1 c1" and t1: "chunked_type c1 = DICTIONARY index_type1 value_type1"
    and p2: "plain f2 c2" and t2: "chunked_type c2 = DICTIONARY index_type2 value_type2"
    and n: "field_name f2 = field_name f1"
    and r1: "readColumnFromArrowColumn lib f1 c1 fmt dv r1 = (Inr x1, dv1)"
    and r2: "readColumnFromArrowColumn lib f2 c2 fmt (cache_after lib fmt between dv1) r2
        = (res, dv2)"
    by simp_all
  note second = second_encounter [OF p1 t1 p2 t2 n r1 r2]
  have first: "materialised dv1 = Suc (materialised dv)
      \<and> (\<exists>payload. dictionary_of_column (column x1)
            = Some (ColumnUnique (materialised dv) payload))"
    if "entries dv (field_name f1) = None \<and> dict_free value_type1
          \<and> field_type f1 = chunked_type c1"
    using first_materialisation [OF p1 t1 _ r1] that by simp
  from second(1) second(2) [of x2] first
  show "dv2 = cache_after lib fmt between dv1
     \<and> (res = Inr x2 \<longrightarrow>
          dictionary_of_column (column x2) = dictionary_of_column (column x1)
          \<and> dictionary_of_column (column x1) \<noteq> None
          \<and> (\<exists>ic indexes. arrow_indexes_column c2 index_type2 = Inr ic
                \<and> readColumnWithIndexesData ic = Inr indexes
                \<and> indexes_of_column (column x2) = Some indexes))
     \<and> (entries dv (field_name f1) = None \<and> dict_free value_type1
          \<and> field_type f1 = chunked_type c1 \<longrightarrow>
          materialised dv1 = Suc (materialised dv)
          \<and> (\<exists>payload. dictionary_of_column (column x1)
                = Some (ColumnUnique (materialised dv) payload)))"
    by simp
qed

lemma city_plain: "plain city_field (city_column indexes)"
  by (simp add: plain_def city_field_def city_column_def)

lemma city_first:
  "readColumnFromArrowColumn example_lib city_field (city_column [0, 1, 0]) ''Parquet''
      \<lparr>entries = Map.empty, materialised = 0\<rparr> True
   = (Inr (city_result [0, 1, 0]), city_cache)"
proof -
  have dict: "readColumnFromArrowColumn example_lib (Field ''dict'' STRING True)
      \<lparr>chunks = [BinaryArray [(False, ''Oslo''), (False, ''Rome'')]], chunked_type = STRING\<rparr>
      ''Parquet'' \<lparr>entries = Map.empty, materialised = 0\<rparr> True
    = (Inr \<lparr>column = ColumnNullable
               (ColumnString (''Oslo'' @ [CHR 0x00] @ ''Rome'' @ [CHR 0x00]) [5, 10])
               (ColumnVector UInt8 [0, 0]),
            type = DataTypeNullable DataTypeString, name = ''dict''\<rparr>,
       \<lparr>entries = Map.empty, materialised = 0\<rparr>)"
    by (simp add: readColumnFromArrowColumn.simps WithNullable_def readFlatColumn_def
        readColumnWithStringData_def map_chunks_def make_nullable_def
        readByteMapFromArrowColumn_def)
  show ?thesis
    apply (subst rc_DICTIONARY_first [OF city_plain, where index_type = INT8 and value_type = STRING])
      apply (simp add: city_column_def)
     apply (simp add: city_field_def)
    apply (simp add: city_column_def city_field_def dictionary_field_and_column_def
        make_ChunkedArray_def dict materialise_def pair_with_indexes_def
        readColumnWithIndexesData_def readColumnWithNumericData_def map_chunks_def
        unsigned_cell_def city_result_def city_cache_def city_dictionary_def)
    done
qed

lemma city_second:
  "readColumnFromArrowColumn example_lib city_field (city_column [1, 1]) ''Parquet''
      city_cache True
   = (Inr (city_result [1, 1]), city_cache)"
  apply (subst rc_DICTIONARY_cached [OF city_plain, where index_type = INT8 and value_type = STRING])
    apply (simp add: city_column_def)
   apply (simp add: city_field_def city_cache_def)
  apply (simp add: city_column_def city_field_def city_cache_def pair_with_indexes_def
      make_ChunkedArray_def readColumnWithIndexesData_def readColumnWithNumericData_def
      map_chunks_def unsigned_cell_def city_result_def)
  apply (simp add: city_dictionary_def)
  done

theorem dictionary_sharing_witness:
  "readColumnFromArrowColumn example_lib city_field (city_column [0, 1, 0]) ''Parquet''
      \<lparr>entries = Map.empty, materialised = 0\<rparr> True
     = (Inr (city_result [0, 1, 0]), city_cache)
   \<and> readColumnFromArrowColumn example_lib city_field (city_column [1, 1]) ''Parquet''
      city_cache True
     = (Inr (city_result [1, 1]), city_cache)
   \<and> dictionary_of_column (column (city_result [1, 1]))
       = dictionary_of_column (column (city_result [0, 1, 0]))
   \<and> indexes_of_column (column (city_result [1, 1])) = Some (ColumnVector UInt8 [1, 1])
   \<and> materialised city_cache = Suc 0"
proof -
  let ?dv = "\<lparr>entries = Map.empty, materialised = 0\<rparr> :: dictionary_cache"
  note inst = dictionary_sharing [of city_field "city_column [0, 1, 0]" INT8 STRING
      city_field "city_column [1, 1]" INT8 STRING example_lib "''Parquet''" ?dv True
      "city_result [0, 1, 0]" city_cache "[]" True "Inr (city_result [1, 1])" city_cache
      "city_result [1, 1]"]
  have t: "chunked_type (city_column indexes) = DICTIONARY INT8 STRING" for indexes
    by (simp add: city_column_def)
  have f: "field_type city_field = DICTIONARY INT8 STRING" "field_name city_field = ''city''"
    by (simp_all add: city_field_def)
  from inst city_plain city_first city_second t f
  have "dictionary_of_column (column (city_result [1, 1]))
       = dictionary_of_column (column (city_result [0, 1, 0]))
     \<and> materialised city_cache = Suc (materialised ?dv)"
    by simp
  moreover have "indexes_of_column (column (city_result [1, 1])) = Some (ColumnVector UInt8 [1, 1])"
    by (simp add: city_result_def)
  ultimately show ?thesis
    using city_first city_second by simp
qed


subsection \<open>Offsets of list and map columns\<close>
















lemma struct_nonempty_field_eq: "struct_nonempty_field f = struct_nonempty (field_type f)"
  by (cases f) simp












lemma struct_nonempty_field0:
  "struct_nonempty t \<Longrightarrow> field0 t = Some f \<Longrightarrow> struct_nonempty (field_type f)"
  by (induction t rule: field0.induct) (auto simp: struct_nonempty_field_eq)

lemma collect_list_values:
  "collect list_values cs = Inr array_vector \<Longrightarrow> \<forall>chunk \<in> set cs. well_formed chunk \<Longrightarrow>
     map array_length array_vector = map element_count cs
       \<and> (\<forall>chunk \<in> set array_vector. well_formed chunk)"
proof (induction cs arbitrary: array_vector)
  case Nil
  then show ?case by simp
next
  case (Cons chunk cs)
  then show ?case
    by (cases chunk) (auto split: sum.splits)
qed

lemma nested_column:
  assumes "nested_field_and_column f c = Inr (nf, nc)"
    and "\<forall>chunk \<in> set (chunks c). well_formed chunk"
  shows "chunked_length nc = sum_list (map element_count (chunks c))"
    and "\<forall>chunk \<in> set (chunks nc). well_formed chunk"
    and "struct_nonempty (field_type f) \<Longrightarrow> struct_nonempty (field_type nf)"
proof -
  from assms(1) obtain array_vector where
    v: "collect list_values (chunks c) = Inr array_vector" and nc: "chunks nc = array_vector"
    and nf: "field0 (field_type f) = Some nf"
    by (auto simp: nested_field_and_column_def getNestedArrowColumn_def make_ChunkedArray_def
        split: option.splits sum.splits if_splits)
  from collect_list_values [OF v assms(2)]
  show "chunked_length nc = sum_list (map element_count (chunks c))"
    and "\<forall>chunk \<in> set (chunks nc). well_formed chunk"
    by (simp_all add: nc chunked_length_def)
  show "struct_nonempty (field_type nf)" if "struct_nonempty (field_type f)"
    using that nf by (rule struct_nonempty_field0)
qed











subsection \<open>The missing-column policy\<close>

lemma absent_no_match:
  "absent lib this ntcp h \<Longrightarrow> no_match lib this ntcp schema h st
     \<and> after_search lib this ntcp schema h st = st"
  by (cases st) (auto simp: absent_def no_match_def after_search_def read_from_nested_def)

lemma step_no_match:
  assumes "no_match lib this ntcp schema h st"
  shows "header_column_step lib this ntcp schema n h st =
     (if \<not> allow_missing_columns this then Inl (THERE_IS_NO_COLUMN (name h))
      else Inr (cloneResized lib (column h) n),
      after_search lib this ntcp schema h st)"
proof (cases "import_nested this")
  case True
  with assms obtain st1 where
    "read_from_nested lib (format_name this) ntcp schema h st = (Inr None, st1)"
    by (cases "read_from_nested lib (format_name this) ntcp schema h st")
      (auto simp: no_match_def)
  with assms True show ?thesis
    by (simp add: header_column_step_def no_match_def after_search_def)
next
  case False
  with assms show ?thesis
    by (simp add: header_column_step_def no_match_def after_search_def)
qed

lemma header_loop_append:
  "header_loop lib this ntcp schema n (pre @ post) st cl =
     (case header_loop lib this ntcp schema n pre st cl of
        (Inl e, st1) \<Rightarrow> (Inl e, st1)
      | (Inr cl1, st1) \<Rightarrow> header_loop lib this ntcp schema n post st1 cl1)"
  by (induction pre arbitrary: st cl) (auto split: prod.splits sum.splits)

lemma header_loop_columns:
  "header_loop lib this ntcp schema n hs st cl = (Inr cl1, st1) \<Longrightarrow>
     \<exists>new. cl1 = cl @ new \<and> length new = length hs"
proof (induction hs arbitrary: st cl)
  case Nil
  then show ?case by simp
next
  case (Cons h hs)
  from Cons.prems obtain c st2 where
    "header_column_step lib this ntcp schema n h st = (Inr c, st2)"
    "header_loop lib this ntcp schema n hs st2 (cl @ [c]) = (Inr cl1, st1)"
    by (auto split: prod.splits sum.splits)
  from Cons.IH [OF this(2)] show ?case by auto
qed

lemma header_loop_absent:
  assumes "\<forall>h \<in> set hs. absent lib this ntcp h"
  shows "header_loop lib this ntcp schema n hs st cl =
     (if allow_missing_columns this
      then (Inr (cl @ map (\<lambda>h. cloneResized lib (column h) n) hs), st)
      else (case hs of [] \<Rightarrow> (Inr cl, st) | h # rest \<Rightarrow> (Inl (THERE_IS_NO_COLUMN (name h)), st)))"
  using assms
proof (induction hs arbitrary: cl)
  case Nil
  then show ?case by simp
next
  case (Cons h hs)
  from Cons.prems have "absent lib this ntcp h" by simp
  from absent_no_match [OF this, of schema st]
  have "header_column_step lib this ntcp schema n h st =
     (if \<not> allow_missing_columns this then Inl (THERE_IS_NO_COLUMN (name h))
      else Inr (cloneResized lib (column h) n), st)"
    by (simp add: step_no_match)
  with Cons show ?case by simp
qed

lemma missing_column_strict:
  assumes "ntcp \<noteq> []" and "header this = pre @ h # post"
    and "header_loop lib this ntcp schema (chunked_length (snd (hd ntcp))) pre
           (dictionary_values this, Map.empty) [] = (Inr cl, st)"
    and "no_match lib this ntcp schema h st"
    and "\<not> allow_missing_columns this"
  shows "fst (arrowColumnsToCHChunk lib this ntcp schema) = Inl (THERE_IS_NO_COLUMN (name h))"
  using assms
  by (simp add: arrowColumnsToCHChunk_def header_loop_append step_no_match Let_def)

lemma missing_column_lenient:
  assumes "ntcp \<noteq> []" and "header this = pre @ h # post"
    and "header_loop lib this ntcp schema (chunked_length (snd (hd ntcp))) pre
           (dictionary_values this, Map.empty) [] = (Inr cl, st)"
    and "no_match lib this ntcp schema h st"
    and "allow_missing_columns this"
  shows "arrowColumnsToCHChunk lib this ntcp schema =
     (case header_loop lib this ntcp schema (chunked_length (snd (hd ntcp))) post
             (after_search lib this ntcp schema h st)
             (cl @ [cloneResized lib (column h) (chunked_length (snd (hd ntcp)))]) of
        (Inl e, st1) \<Rightarrow> (Inl e, this\<lparr>dictionary_values := fst st1\<rparr>)
      | (Inr columns_list, st1) \<Rightarrow>
          (Inr \<lparr>columns = columns_list, num_rows = chunked_length (snd (hd ntcp))\<rparr>,
           this\<lparr>dictionary_values := fst st1\<rparr>))"
    and "fst (arrowColumnsToCHChunk lib this ntcp schema) = Inr chunk \<Longrightarrow>
       num_rows chunk = chunked_length (snd (hd ntcp))
       \<and> length (columns chunk) = length (header this)
       \<and> columns chunk ! length pre = cloneResized lib (column h) (chunked_length (snd (hd ntcp)))"
proof -
  let ?n = "chunked_length (snd (hd ntcp))"
  let ?st = "after_search lib this ntcp schema h st"
  let ?cl = "cl @ [cloneResized lib (column h) ?n]"
  from assms show eq: "arrowColumnsToCHChunk lib this ntcp schema =
     (case header_loop lib this ntcp schema ?n post ?st ?cl of
        (Inl e, st1) \<Rightarrow> (Inl e, this\<lparr>dictionary_values := fst st1\<rparr>)
      | (Inr columns_list, st1) \<Rightarrow>
          (Inr \<lparr>columns = columns_list, num_rows = ?n\<rparr>, this\<lparr>dictionary_values := fst st1\<rparr>))"
    by (simp add: arrowColumnsToCHChunk_def header_loop_append step_no_match Let_def)
  assume "fst (arrowColumnsToCHChunk lib this ntcp schema) = Inr chunk"
  with eq obtain cl1 st1 where
    post: "header_loop lib this ntcp schema ?n post ?st ?cl = (Inr cl1, st1)"
    and chunk: "chunk = \<lparr>columns = cl1, num_rows = ?n\<rparr>"
    by (auto split: prod.splits sum.splits)
  from header_loop_columns [OF post] obtain new where
    new: "cl1 = ?cl @ new" "length new = length post" by auto
  from header_loop_columns [OF assms(3)] have "length cl = length pre" by auto
  with new chunk assms(2) show "num_rows chunk = ?n
       \<and> length (columns chunk) = length (header this)
       \<and> columns chunk ! length pre = cloneResized lib (column h) ?n"
    by (simp add: nth_append)
qed

lemma all_absent_lenient:
  assumes "ntcp \<noteq> []" and "\<forall>h \<in> set (header this). absent lib this ntcp h"
    and "allow_missing_columns this"
  shows "arrowColumnsToCHChunk lib this ntcp schema =
     (Inr \<lparr>columns = map (\<lambda>h. cloneResized lib (column h) (chunked_length (snd (hd ntcp))))
                       (header this),
           num_rows = chunked_length (snd (hd ntcp))\<rparr>, this)"
  using assms by (simp add: arrowColumnsToCHChunk_def header_loop_absent Let_def)

text \<open>A strict call with a header column that is absent does not succeed.\<close>

lemma strict_fails:
  assumes "ntcp \<noteq> []" and "g \<in> set (header this)" and "absent lib this ntcp g"
    and "\<not> allow_missing_columns this"
  shows "\<exists>e. fst (arrowColumnsToCHChunk lib this ntcp schema) = Inl e"
proof -
  from assms(2) obtain pre post where hdr: "header this = pre @ g # post"
    by (auto dest: split_list)
  let ?n = "chunked_length (snd (hd ntcp))"
  obtain res st where pre: "header_loop lib this ntcp schema ?n pre
      (dictionary_values this, Map.empty) [] = (res, st)"
    by (cases "header_loop lib this ntcp schema ?n pre (dictionary_values this, Map.empty) []")
  show ?thesis
  proof (cases res)
    case (Inl e)
    with pre assms(1) hdr show ?thesis
      by (simp add: arrowColumnsToCHChunk_def header_loop_append Let_def)
  next
    case (Inr cl)
    from absent_no_match [OF assms(3)] have "no_match lib this ntcp schema g st" by simp
    from missing_column_strict [OF assms(1) hdr pre [unfolded Inr] this assms(4)]
    show ?thesis by blast
  qed
qed

text \<open>
  Claim C7 (missing-column policy), as amended. The loop of \<open>arrowColumnsToCHChunk\<close>
  over the header, having converted the columns before it, has come to a column \<open>h\<close>
  without a match: its name is not the name of an external column, and the search in a
  nested table, if nested import is on, finds none. Under the strict policy the call
  throws \<open>THERE_IS_NO_COLUMN\<close> with the name of \<open>h\<close>. Under the lenient policy
  the column of \<open>h\<close> in the header, resized by \<open>cloneResized\<close> to the row count of
  the batch, is appended and the loop goes on with the rest of the header: the call
  succeeds or throws as the rest of the loop does, and a chunk that it returns has that
  row count, a column for every header column, and the resized column at the position
  of \<open>h\<close>. A strict call never succeeds when some header column is absent from the
  external columns, whatever the other columns do. A lenient call for which every header
  column is absent succeeds, with every column made this way.
\<close>

theorem missing_column_policy:
  "(ntcp \<noteq> [] \<and> header this = pre @ h # post
      \<and> header_loop lib this ntcp schema (chunked_length (snd (hd ntcp))) pre
           (dictionary_values this, Map.empty) [] = (Inr cl, st)
      \<and> no_match lib this ntcp schema h st
    \<longrightarrow> (\<not> allow_missing_columns this \<longrightarrow>
           fst (arrowColumnsToCHChunk lib this ntcp schema) = Inl (THERE_IS_NO_COLUMN (name h)))
       \<and> (allow_missing_columns this \<longrightarrow>
           arrowColumnsToCHChunk lib this ntcp schema =
             (case header_loop lib this ntcp schema (chunked_length (snd (hd ntcp))) post
                     (after_search lib this ntcp schema h st)
                     (cl @ [cloneResized lib (column h) (chunked_length (snd (hd ntcp)))]) of
                (Inl e, st1) \<Rightarrow> (Inl e, this\<lparr>dictionary_values := fst st1\<rparr>)
              | (Inr columns_list, st1) \<Rightarrow>
                  (Inr \<lparr>columns = columns_list, num_rows = chunked_length (snd (hd ntcp))\<rparr>,
                   this\<lparr>dictionary_values := fst st1\<rparr>)))
       \<and> (allow_missing_columns this
            \<and> fst (arrowColumnsToCHChunk lib this ntcp schema) = Inr chunk \<longrightarrow>
           num_rows chunk = chunked_length (snd (hd ntcp))
           \<and> length (columns chunk) = length (header this)
           \<and> columns chunk ! length pre
               = cloneResized lib (column h) (chunked_length (snd (hd ntcp)))))
   \<and> (ntcp \<noteq> [] \<and> g \<in> set (header this) \<and> absent lib this ntcp g
        \<and> \<not> allow_missing_columns this
      \<longrightarrow> (\<exists>e. fst (arrowColumnsToCHChunk lib this ntcp schema) = Inl e))
   \<and> (ntcp \<noteq> [] \<and> (\<forall>h \<in> set (header this). absent lib this ntcp h)
        \<and> allow_missing_columns this
      \<longrightarrow> arrowColumnsToCHChunk lib this ntcp schema =
            (Inr \<lparr>columns = map (\<lambda>h. cloneResized lib (column h) (chunked_length (snd (hd ntcp))))
                              (header this),
                  num_rows = chunked_length (snd (hd ntcp))\<rparr>, this))"
proof (intro conjI impI)
  assume a: "ntcp \<noteq> [] \<and> header this = pre @ h # post
      \<and> header_loop lib this ntcp schema (chunked_length (snd (hd ntcp))) pre
           (dictionary_values this, Map.empty) [] = (Inr cl, st)
      \<and> no_match lib this ntcp schema h st"
  {
    assume "\<not> allow_missing_columns this"
    with a show "fst (arrowColumnsToCHChunk lib this ntcp schema) = Inl (THERE_IS_NO_COLUMN (name h))"
      by (intro missing_column_strict [of ntcp this pre h post lib schema cl st]) simp_all
  }
  {
    assume "allow_missing_columns this"
    with a show "arrowColumnsToCHChunk lib this ntcp schema =
             (case header_loop lib this ntcp schema (chunked_length (snd (hd ntcp))) post
                     (after_search lib this ntcp schema h st)
                     (cl @ [cloneResized lib (column h) (chunked_length (snd (hd ntcp)))]) of
                (Inl e, st1) \<Rightarrow> (Inl e, this\<lparr>dictionary_values := fst st1\<rparr>)
              | (Inr columns_list, st1) \<Rightarrow>
                  (Inr \<lparr>columns = columns_list, num_rows = chunked_length (snd (hd ntcp))\<rparr>,
                   this\<lparr>dictionary_values := fst st1\<rparr>))"
      by (intro missing_column_lenient(1) [of ntcp this pre h post lib schema cl st]) simp_all
  }
  {
    assume "allow_missing_columns this
            \<and> fst (arrowColumnsToCHChunk lib this ntcp schema) = Inr chunk"
    with a have "num_rows chunk = chunked_length (snd (hd ntcp))
           \<and> length (columns chunk) = length (header this)
           \<and> columns chunk ! length pre
               = cloneResized lib (column h) (chunked_length (snd (hd ntcp)))"
      by (intro missing_column_lenient(2) [of ntcp this pre h post lib schema cl st]) simp_all
    then show "num_rows chunk = chunked_length (snd (hd ntcp))"
      and "length (columns chunk) = length (header this)"
      and "columns chunk ! length pre
               = cloneResized lib (column h) (chunked_length (snd (hd ntcp)))"
      by simp_all
  }
next
  assume "ntcp \<noteq> [] \<and> g \<in> set (header this) \<and> absent lib this ntcp g
        \<and> \<not> allow_missing_columns this"
  then show "\<exists>e. fst (arrowColumnsToCHChunk lib this ntcp schema) = Inl e"
    by (intro strict_fails [of ntcp g this lib]) simp_all
next
  assume "ntcp \<noteq> [] \<and> (\<forall>h \<in> set (header this). absent lib this ntcp h)
        \<and> allow_missing_columns this"
  then show "arrowColumnsToCHChunk lib this ntcp schema =
            (Inr \<lparr>columns = map (\<lambda>h. cloneResized lib (column h) (chunked_length (snd (hd ntcp))))
                              (header this),
                  num_rows = chunked_length (snd (hd ntcp))\<rparr>, this)"
    by (intro all_absent_lenient) simp_all
qed

lemma example_cache:
  "dictionary_values (example_session hdr allow) = \<lparr>entries = Map.empty, materialised = 0\<rparr>"
  by (simp add: example_session_def)

lemma example_step:
  "header_column_step example_lib (example_session hdr allow) [(''a'', int32_chunked [1, 2])]
      [Field ''a'' INT32 False] n (int32_column ''a'') (\<lparr>entries = Map.empty, materialised = 0\<rparr>, Map.empty)
   = (Inr (ColumnVector Int32 [1, 2]), \<lparr>entries = Map.empty, materialised = 0\<rparr>, Map.empty)"
  by (simp add: header_column_step_def int32_column_def schema_field_def GetFieldIndex_def
      example_session_def readColumnFromArrowColumn.simps readFlatColumn_def int32_chunked_def
      readColumnWithNumericData_def map_chunks_def cast_to_header_def example_lib_def
      signed_cell_def)

theorem missing_column_policy_witness:
  "fst (arrowColumnsToCHChunk example_lib
          (example_session [int32_column ''a'', int32_column ''b''] False)
          [(''a'', int32_chunked [1, 2])] [Field ''a'' INT32 False])
     = Inl (THERE_IS_NO_COLUMN ''b'')
   \<and> arrowColumnsToCHChunk example_lib
          (example_session [int32_column ''a'', int32_column ''b''] True)
          [(''a'', int32_chunked [1, 2])] [Field ''a'' INT32 False]
     = (Inr \<lparr>columns = [ColumnVector Int32 [1, 2], ColumnVector Int32 [0, 0]], num_rows = 2\<rparr>,
        example_session [int32_column ''a'', int32_column ''b''] True)"
proof -
  let ?hdr = "[int32_column ''a'', int32_column ''b'']"
  let ?ntcp = "[(''a'', int32_chunked [1, 2])]"
  let ?schema = "[Field ''a'' INT32 False]"
  let ?st = "(\<lparr>entries = Map.empty, materialised = (0::nat)\<rparr>,
      Map.empty :: string \<Rightarrow> ColumnWithTypeAndName list option)"
  have n: "chunked_length (snd (hd ?ntcp)) = 2"
    by (simp add: chunked_length_def int32_chunked_def array_length_def)
  have pre: "header_loop example_lib (example_session ?hdr allow) ?ntcp ?schema
      (chunked_length (snd (hd ?ntcp))) [int32_column ''a'']
      (dictionary_values (example_session ?hdr allow), Map.empty) []
     = (Inr [ColumnVector Int32 [1, 2]], ?st)" for allow
    by (simp add: example_step example_cache)
  have nm: "no_match example_lib (example_session ?hdr allow) ?ntcp ?schema (int32_column ''b'') ?st"
    for allow
    by (simp add: no_match_def int32_column_def example_session_def)
  have hd: "header (example_session ?hdr allow) = [int32_column ''a''] @ int32_column ''b'' # []"
    for allow
    by (simp add: example_session_def)
  note strict = missing_column_policy [of ?ntcp "example_session ?hdr False" "[int32_column ''a'']"
      "int32_column ''b''" "[]" example_lib ?schema "[ColumnVector Int32 [1, 2]]" ?st]
  note lenient = missing_column_policy [of ?ntcp "example_session ?hdr True" "[int32_column ''a'']"
      "int32_column ''b''" "[]" example_lib ?schema "[ColumnVector Int32 [1, 2]]" ?st]
  have 1: "fst (arrowColumnsToCHChunk example_lib (example_session ?hdr False) ?ntcp ?schema)
     = Inl (THERE_IS_NO_COLUMN ''b'')"
    using strict pre [of False] nm [of False] hd [of False]
    by (simp add: example_session_def int32_column_def)
  have 2: "arrowColumnsToCHChunk example_lib (example_session ?hdr True) ?ntcp ?schema
     = (Inr \<lparr>columns = [ColumnVector Int32 [1, 2], ColumnVector Int32 [0, 0]], num_rows = 2\<rparr>,
        example_session ?hdr True)"
    using lenient pre [of True] nm [of True] hd [of True] n
    by (simp add: example_session_def int32_column_def example_lib_def after_search_def
        numeral_2_eq_2)
  from 1 2 show ?thesis by simp
qed

text \<open>
  The claim as stated has the lenient call succeed, and the strict call name every
  header column without a match. A lenient call with the header columns \<open>b\<close>, absent,
  and \<open>a\<close>, present with a type that the converter does not know, throws
  \<open>UNKNOWN_TYPE\<close> for \<open>a\<close>. A strict call with the header columns \<open>b\<close> and
  \<open>c\<close>, both absent, throws \<open>THERE_IS_NO_COLUMN\<close> for \<open>b\<close>, not for \<open>c\<close>.
\<close>

theorem missing_column_policy_counterexample:
  "absent example_lib (example_session [int32_column ''b'', int32_column ''a''] True)
      [(''a'', time32_chunked [1, 2])] (int32_column ''b'')
   \<and> allow_missing_columns (example_session [int32_column ''b'', int32_column ''a''] True)
   \<and> fst (arrowColumnsToCHChunk example_lib
          (example_session [int32_column ''b'', int32_column ''a''] True)
          [(''a'', time32_chunked [1, 2])] [Field ''a'' (OTHER ''time32'') False])
     = Inl (UNKNOWN_TYPE ''Parquet'' (OTHER ''time32'') ''a'')
   \<and> absent example_lib (example_session [int32_column ''b'', int32_column ''c''] False)
      [(''a'', int32_chunked [1, 2])] (int32_column ''c'')
   \<and> fst (arrowColumnsToCHChunk example_lib
          (example_session [int32_column ''b'', int32_column ''c''] False)
          [(''a'', int32_chunked [1, 2])] [Field ''a'' INT32 False])
     = Inl (THERE_IS_NO_COLUMN ''b'')"
  by (simp add: absent_def example_session_def int32_column_def arrowColumnsToCHChunk_def
      header_column_step_def schema_field_def GetFieldIndex_def time32_chunked_def
      int32_chunked_def readColumnFromArrowColumn.simps readFlatColumn_def Let_def)

end
